theory Spec2Isabelle
  imports Main
begin

section \<open>JavaScript values used by the session engine\<close>

text \<open>
  Strings are character lists. An optional field of a decoded JSON object is a
  \<open>string option\<close>; a value is truthy when it is present and not the empty string,
  which is what \<^verbatim>\<open>if (msg.timestamp)\<close> tests. Numbers that count or index
  (\<open>limit\<close>, \<open>offset\<close>) are integers.
\<close>

definition truthy :: "string option \<Rightarrow> bool" where
  "truthy v = (case v of None \<Rightarrow> False | Some s \<Rightarrow> s \<noteq> [])"

text \<open>\<^verbatim>\<open>v || d\<close> on an optional string with a string default.\<close>

definition orElse :: "string option \<Rightarrow> string \<Rightarrow> string" where
  "orElse v d = (case v of None \<Rightarrow> d | Some s \<Rightarrow> if s = [] then d else s)"

text \<open>\<^verbatim>\<open>v || undefined\<close>.\<close>

definition orUndefined :: "string option \<Rightarrow> string option" where
  "orUndefined v = (if truthy v then v else None)"

definition startsWith :: "string \<Rightarrow> string \<Rightarrow> bool" where
  "startsWith s p = (take (length p) s = p)"

definition endsWith :: "string \<Rightarrow> string \<Rightarrow> bool" where
  "endsWith s p = (length p \<le> length s \<and> drop (length s - length p) s = p)"

text \<open>\<^verbatim>\<open>s.includes(q)\<close>: \<open>q\<close> occurs in \<open>s\<close> as a contiguous run.\<close>

fun includesStr :: "string \<Rightarrow> string \<Rightarrow> bool" where
  "includesStr [] q = (q = [])"
| "includesStr (c # cs) q = (startsWith (c # cs) q \<or> includesStr cs q)"

text \<open>\<^verbatim>\<open>s.indexOf(q)\<close>, with \<open>None\<close> for -1.\<close>

fun indexOf :: "string \<Rightarrow> string \<Rightarrow> nat option" where
  "indexOf [] q = (if q = [] then Some 0 else None)"
| "indexOf (c # cs) q =
     (if startsWith (c # cs) q then Some 0 else map_option Suc (indexOf cs q))"

text \<open>\<^verbatim>\<open>s.replace(p, '')\<close> with a string pattern: only the first occurrence goes.\<close>

fun removeFirst :: "string \<Rightarrow> string \<Rightarrow> string" where
  "removeFirst [] p = []"
| "removeFirst (c # cs) p =
     (if startsWith (c # cs) p then drop (length p) (c # cs) else c # removeFirst cs p)"

definition lowerChar :: "char \<Rightarrow> char" where
  "lowerChar c =
     (let n = (of_char c :: nat) in if 65 \<le> n \<and> n \<le> 90 then char_of (n + 32) else c)"

definition toLowerCase :: "string \<Rightarrow> string" where
  "toLowerCase s = map lowerChar s"

fun join :: "string \<Rightarrow> string list \<Rightarrow> string" where
  "join sep [] = []"
| "join sep [x] = x"
| "join sep (x # y # ys) = x @ sep @ join sep (y # ys)"

text \<open>
  \<^verbatim>\<open>xs.slice(start, end)\<close>: a negative index counts from the end, and both ends
  are clamped to the array.
\<close>

definition relIndex :: "int \<Rightarrow> nat \<Rightarrow> nat" where
  "relIndex i len = (if i < 0 then nat (max (int len + i) 0) else min (nat i) len)"

definition slice :: "'a list \<Rightarrow> int \<Rightarrow> int \<Rightarrow> 'a list" where
  "slice xs start fin =
     (let from = relIndex start (length xs); to = relIndex fin (length xs)
      in take (to - from) (drop from xs))"

section \<open>Session records\<close>

text \<open>
  An element of a content array is a bare string or an object with the optional fields
  \<open>type\<close>, \<open>text\<close>, \<open>name\<close> and \<open>input\<close>; \<open>input\<close> is a map from field names to
  strings, kept as an association list.
\<close>

type_synonym tool_input = "(string \<times> string) list"

datatype item =
    ItemString string
  | ItemObject (itype: "string option") (itext: "string option") (iname: "string option")
      (iinput: "tool_input option")

text \<open>\<^verbatim>\<open>content: string | any[]\<close>; \<open>COther\<close> is any value that is neither.\<close>

datatype content = CString string | CArray "item list" | COther

text \<open>
  The four kinds of \<^verbatim>\<open>SessionMessage\<close>. The engine tests a record's kind only
  against \<open>user\<close>, \<open>assistant\<close> and \<open>summary\<close>, so a record of any other kind is
  treated as a \<open>file-history-snapshot\<close> record is.
\<close>

datatype msg_type = User | Assistant | Summary | FileHistorySnapshot

text \<open>
  The fields of \<^verbatim>\<open>SessionMessage\<close> that the engine reads. \<open>msg_message\<close> is
  \<open>None\<close> when the record has no \<open>message\<close>, else the message's \<open>content\<close>.
\<close>

record SessionMessage =
  msg_type :: msg_type
  msg_message :: "content option"
  msg_timestamp :: "string option"
  msg_gitBranch :: "string option"
  msg_summary :: "string option"

text \<open>
  One line of a session file as the read loop sees it: blank (skipped by
  \<^verbatim>\<open>if (!line.trim()) continue\<close>), rejected by \<^verbatim>\<open>JSON.parse\<close> (skipped by the
  \<^verbatim>\<open>catch\<close>), or a decoded record.
\<close>

datatype line = Blank | Malformed | Decoded SessionMessage

section \<open>Content extractors\<close>

text \<open>\<^verbatim>\<open>extractContentText\<close> of the session parser (verbose: tool blocks leave markers).\<close>

fun itemText :: "item \<Rightarrow> string" where
  "itemText (ItemString s) = s"
| "itemText (ItemObject ty tx nm inp) =
     (if ty = Some ''text'' \<and> truthy tx then orElse tx []
      else if ty = Some ''tool_use'' \<and> truthy nm then ''[Tool: '' @ orElse nm [] @ '']''
      else if ty = Some ''tool_result'' then ''[Tool Result]''
      else [])"

fun extractContentText :: "content \<Rightarrow> string" where
  "extractContentText (CString s) = s"
| "extractContentText (CArray items) =
     join [CHR 0x0A] (filter (\<lambda>t. t \<noteq> []) (map itemText items))"
| "extractContentText COther = []"

text \<open>\<^verbatim>\<open>extractContentText\<close> of the content search (text blocks only).\<close>

fun itemTextSearch :: "item \<Rightarrow> string" where
  "itemTextSearch (ItemString s) = s"
| "itemTextSearch (ItemObject ty tx nm inp) =
     (if ty = Some ''text'' \<and> truthy tx then orElse tx [] else [])"

fun extractContentTextSearch :: "content \<Rightarrow> string" where
  "extractContentTextSearch (CString s) = s"
| "extractContentTextSearch (CArray items) =
     join [CHR 0x0A] (filter (\<lambda>t. t \<noteq> []) (map itemTextSearch items))"
| "extractContentTextSearch COther = []"

text \<open>
  \<^verbatim>\<open>extractTextContent\<close> of the timeline: text blocks joined by a space, the
  joined text cut to 150 characters; a bare string is returned whole.
\<close>

fun isTextItem :: "item \<Rightarrow> bool" where
  "isTextItem (ItemString s) = False"
| "isTextItem (ItemObject ty tx nm inp) = (ty = Some ''text'' \<and> truthy tx)"

fun itemTextField :: "item \<Rightarrow> string" where
  "itemTextField (ItemString s) = []"
| "itemTextField (ItemObject ty tx nm inp) = orElse tx []"

fun extractTextContent :: "content \<Rightarrow> string" where
  "extractTextContent (CString s) = s"
| "extractTextContent (CArray items) =
     take 150 (join '' '' (map itemTextField (filter isTextItem items)))"
| "extractTextContent COther = []"

text \<open>\<^verbatim>\<open>extractToolCallsFromContent\<close> of the session parser; only the names are used.\<close>

fun isToolUse :: "item \<Rightarrow> bool" where
  "isToolUse (ItemString s) = False"
| "isToolUse (ItemObject ty tx nm inp) = (ty = Some ''tool_use'')"

fun itemName :: "item \<Rightarrow> string option" where
  "itemName (ItemString s) = None"
| "itemName (ItemObject ty tx nm inp) = nm"

fun extractToolCallsFromContent :: "content \<Rightarrow> string option list" where
  "extractToolCallsFromContent (CArray items) = map itemName (filter isToolUse items)"
| "extractToolCallsFromContent c = []"

section \<open>The session store\<close>

text \<open>
  The store is what the file system calls return. \<^verbatim>\<open>readdir\<close> gives the entries
  or fails with the platform's message; \<^verbatim>\<open>stat\<close> of a path below a project
  directory succeeds when the directory lists a file of that name (a session id is a file
  stem, with no path separator in it). A session file is its name, its size in bytes and
  its lines.
\<close>

datatype 'a readdir = ReaddirError string | Entries "'a list"

record SessionFile =
  file_name :: string
  file_size :: nat
  file_lines :: "line list"

record ProjectDir =
  dir_name :: string
  dir_files :: "SessionFile readdir"

type_synonym store = "ProjectDir readdir"

definition statFile :: "ProjectDir \<Rightarrow> string \<Rightarrow> SessionFile option" where
  "statFile d name =
     (case dir_files d of
        ReaddirError e \<Rightarrow> None
      | Entries fs \<Rightarrow> find (\<lambda>f. file_name f = name) fs)"

text \<open>\<^verbatim>\<open>projectDir.replace(/^-/, '').replace(/-/g, '/')\<close>\<close>

definition decodeProjectPath :: "string \<Rightarrow> string" where
  "decodeProjectPath d =
     map (\<lambda>c. if c = CHR ''-'' then CHR ''/'' else c)
       (case d of [] \<Rightarrow> [] | c # cs \<Rightarrow> if c = CHR ''-'' then cs else c # cs)"

text \<open>
  An exception is its message. A handler's result is the success envelope around the
  payload or the error envelope around a message.
\<close>

datatype error = Error string

datatype 'a ToolResult = ErrorResponse string | SuccessResponse 'a

fun errorMessage :: "error \<Rightarrow> string" where
  "errorMessage (Error m) = m"

section \<open>The session parser\<close>

subsection \<open>getSessionInfo\<close>

record SessionInfo =
  si_sessionId :: string
  si_project :: string
  si_summary :: "string option"
  si_messageCount :: nat
  si_startedAt :: string
  si_lastActivityAt :: string
  si_sizeBytes :: nat
  si_gitBranch :: "string option"

text \<open>The variables of the read loop shared by the folded views.\<close>

record InfoState =
  is_messageCount :: nat
  is_startedAt :: "string option"
  is_lastActivityAt :: "string option"
  is_summary :: "string option"
  is_gitBranch :: "string option"

definition infoInit :: InfoState where
  "infoInit = \<lparr>is_messageCount = 0, is_startedAt = None, is_lastActivityAt = None,
     is_summary = None, is_gitBranch = None\<rparr>"

definition isMessage :: "SessionMessage \<Rightarrow> bool" where
  "isMessage msg = (msg_type msg = User \<or> msg_type msg = Assistant)"

fun infoStep :: "InfoState \<Rightarrow> line \<Rightarrow> InfoState" where
  "infoStep st Blank = st"
| "infoStep st Malformed = st"
| "infoStep st (Decoded msg) =
     (let st1 =
        (if isMessage msg then
           (let a = st\<lparr>is_messageCount := is_messageCount st + 1\<rparr>;
                b = (if truthy (msg_timestamp msg)
                     then (if \<not> truthy (is_startedAt a)
                           then a\<lparr>is_startedAt := msg_timestamp msg\<rparr>
                           else a)\<lparr>is_lastActivityAt := msg_timestamp msg\<rparr>
                     else a)
            in if truthy (msg_gitBranch msg) \<and> \<not> truthy (is_gitBranch b)
               then b\<lparr>is_gitBranch := msg_gitBranch msg\<rparr> else b)
         else st)
      in if msg_type msg = Summary \<and> truthy (msg_summary msg)
         then st1\<lparr>is_summary := msg_summary msg\<rparr> else st1)"

definition getSessionInfo :: "line list \<Rightarrow> string \<Rightarrow> string \<Rightarrow> SessionInfo option" where
  "getSessionInfo lines sessionId projectPath =
     (let st = foldl infoStep infoInit lines in
      case is_startedAt st of
        None \<Rightarrow> None
      | Some startedAt \<Rightarrow>
          if startedAt = [] then None
          else Some \<lparr>si_sessionId = sessionId, si_project = projectPath,
                 si_summary = orUndefined (is_summary st),
                 si_messageCount = is_messageCount st,
                 si_startedAt = startedAt,
                 si_lastActivityAt = orElse (is_lastActivityAt st) startedAt,
                 si_sizeBytes = 0,
                 si_gitBranch = orUndefined (is_gitBranch st)\<rparr>)"

subsection \<open>parseSessionFile\<close>

datatype format = Json | Markdown | Full | Standard | Minimal | OtherFormat

record RawMessage =
  rm_role :: msg_type
  rm_rawContent :: content
  rm_timestamp :: string

record ParseState =
  ps_allMessages :: "RawMessage list"
  ps_summary :: "string option"
  ps_gitBranch :: "string option"
  ps_startedAt :: "string option"
  ps_lastActivityAt :: "string option"

definition parseInit :: ParseState where
  "parseInit = \<lparr>ps_allMessages = [], ps_summary = None, ps_gitBranch = None,
     ps_startedAt = None, ps_lastActivityAt = None\<rparr>"

fun parseStep :: "ParseState \<Rightarrow> line \<Rightarrow> ParseState" where
  "parseStep st Blank = st"
| "parseStep st Malformed = st"
| "parseStep st (Decoded msg) =
     (let st1 =
        (if isMessage msg then
           (let a = (if truthy (msg_timestamp msg)
                     then (if \<not> truthy (ps_startedAt st)
                           then st\<lparr>ps_startedAt := msg_timestamp msg\<rparr>
                           else st)\<lparr>ps_lastActivityAt := msg_timestamp msg\<rparr>
                     else st);
                b = (if truthy (msg_gitBranch msg) \<and> \<not> truthy (ps_gitBranch a)
                     then a\<lparr>ps_gitBranch := msg_gitBranch msg\<rparr> else a)
            in case msg_message msg of
                 None \<Rightarrow> b
               | Some c \<Rightarrow>
                   b\<lparr>ps_allMessages := ps_allMessages b @
                      [\<lparr>rm_role = msg_type msg, rm_rawContent = c,
                        rm_timestamp = orElse (msg_timestamp msg) []\<rparr>]\<rparr>)
         else st)
      in if msg_type msg = Summary \<and> truthy (msg_summary msg)
         then st1\<lparr>ps_summary := msg_summary msg\<rparr> else st1)"

text \<open>The five output shapes of a page (and the raw page for an unknown format).\<close>

record LegacyMessage =
  lm_role :: msg_type
  lm_content :: string
  lm_timestamp :: string

record FullMessage =
  fm_role :: msg_type
  fm_timestamp :: string
  fm_content :: content

record StandardMessage =
  sm_role :: msg_type
  sm_timestamp :: string
  sm_text :: "string option"
  sm_toolCalls :: "string option list option"

record MinimalMessage =
  mm_role :: msg_type
  mm_timestamp :: string
  mm_contentLength :: nat
  mm_toolCalls :: "string option list option"

datatype session_data =
    LegacyData "LegacyMessage list"
  | MarkdownData string
  | FullData "FullMessage list"
  | StandardData "StandardMessage list"
  | MinimalData "MinimalMessage list"
  | RawData "RawMessage list"

record SessionResult =
  sr_sessionId :: string
  sr_project :: string
  sr_summary :: "string option"
  sr_gitBranch :: "string option"
  sr_startedAt :: string
  sr_lastActivityAt :: string
  sr_data :: session_data
  sr_total :: nat
  sr_hasMore :: bool

definition toLegacy :: "RawMessage \<Rightarrow> LegacyMessage" where
  "toLegacy msg = \<lparr>lm_role = rm_role msg, lm_content = extractContentText (rm_rawContent msg),
     lm_timestamp = rm_timestamp msg\<rparr>"

definition legacyMessages :: "bool \<Rightarrow> RawMessage list \<Rightarrow> LegacyMessage list" where
  "legacyMessages includeToolCalls page =
     filter (\<lambda>m. includeToolCalls \<or> \<not> includesStr (lm_content m) ''[Tool'') (map toLegacy page)"

definition toolCallNames :: "content \<Rightarrow> string option list option" where
  "toolCallNames c =
     (let toolCalls = extractToolCallsFromContent c
      in if length toolCalls > 0 then Some toolCalls else None)"

definition mdMessage :: "LegacyMessage \<Rightarrow> string list" where
  "mdMessage msg =
     [''## '' @ (if lm_role msg = User then ''User'' else ''Assistant'') @ '' ('' @
        lm_timestamp msg @ '')'',
      lm_content msg, []]"

definition markdownText ::
  "string \<Rightarrow> string \<Rightarrow> string option \<Rightarrow> string option \<Rightarrow> string \<Rightarrow> string option \<Rightarrow>
   LegacyMessage list \<Rightarrow> string" where
  "markdownText sessionId projectPath summary gitBranch startedAt lastActivityAt msgs =
     join [CHR 0x0A]
       ([''# Session: '' @ sessionId, ''**Project:** '' @ projectPath]
        @ (if truthy summary then [''**Summary:** '' @ orElse summary []] else [])
        @ (if truthy gitBranch then [''**Branch:** '' @ orElse gitBranch []] else [])
        @ [''**Started:** '' @ startedAt,
           ''**Last Activity:** '' @ (case lastActivityAt of None \<Rightarrow> ''null'' | Some t \<Rightarrow> t),
           []]
        @ concat (map mdMessage msgs))"

definition parseSessionFile ::
  "line list \<Rightarrow> string \<Rightarrow> string \<Rightarrow> format \<Rightarrow> bool \<Rightarrow> int \<Rightarrow> int \<Rightarrow> error + SessionResult" where
  "parseSessionFile lines sessionId projectPath fmt includeToolCalls limit offset =
     (let st = foldl parseStep parseInit lines in
      if \<not> truthy (ps_startedAt st)
      then Inl (Error ''Invalid session file: no timestamps found'')
      else
        (let startedAt = orElse (ps_startedAt st) [];
             allMessages = ps_allMessages st;
             total = length allMessages;
             paginatedMessages = slice allMessages offset (offset + limit);
             hasMore = (offset + limit < int total);
             legacy = legacyMessages includeToolCalls paginatedMessages;
             formatted =
               (case fmt of
                  Markdown \<Rightarrow>
                    MarkdownData (markdownText sessionId projectPath (ps_summary st)
                      (ps_gitBranch st) startedAt (ps_lastActivityAt st) legacy)
                | Json \<Rightarrow> LegacyData legacy
                | Full \<Rightarrow>
                    FullData (map (\<lambda>m. \<lparr>fm_role = rm_role m, fm_timestamp = rm_timestamp m,
                      fm_content = rm_rawContent m\<rparr>) paginatedMessages)
                | Standard \<Rightarrow>
                    StandardData (map (\<lambda>m.
                      (let textContent = extractContentText (rm_rawContent m)
                       in \<lparr>sm_role = rm_role m, sm_timestamp = rm_timestamp m,
                            sm_text = (if textContent = [] then None else Some textContent),
                            sm_toolCalls = toolCallNames (rm_rawContent m)\<rparr>))
                      paginatedMessages)
                | Minimal \<Rightarrow>
                    MinimalData (map (\<lambda>m.
                      \<lparr>mm_role = rm_role m, mm_timestamp = rm_timestamp m,
                       mm_contentLength = length (extractContentText (rm_rawContent m)),
                       mm_toolCalls = toolCallNames (rm_rawContent m)\<rparr>) paginatedMessages)
                | OtherFormat \<Rightarrow> RawData paginatedMessages)
         in Inr \<lparr>sr_sessionId = sessionId, sr_project = projectPath,
                 sr_summary = orUndefined (ps_summary st),
                 sr_gitBranch = orUndefined (ps_gitBranch st),
                 sr_startedAt = startedAt,
                 sr_lastActivityAt = orElse (ps_lastActivityAt st) startedAt,
                 sr_data = formatted, sr_total = total, sr_hasMore = hasMore\<rparr>))"

subsection \<open>getSession and its handler\<close>

text \<open>
  The loop over the project directories. The \<^verbatim>\<open>try\<close> block holds both the
  \<^verbatim>\<open>stat\<close> and the \<^verbatim>\<open>return await parseSessionFile(...)\<close>, so an exception
  of either moves on to the next directory.
\<close>

fun getSessionLoop ::
  "ProjectDir list \<Rightarrow> string \<Rightarrow> format \<Rightarrow> bool \<Rightarrow> int \<Rightarrow> int \<Rightarrow> error + SessionResult" where
  "getSessionLoop [] sessionId fmt incl limit offset =
     Inl (Error (''Session '' @ sessionId @ '' not found''))"
| "getSessionLoop (d # ds) sessionId fmt incl limit offset =
     (case statFile d (sessionId @ ''.jsonl'') of
        None \<Rightarrow> getSessionLoop ds sessionId fmt incl limit offset
      | Some f \<Rightarrow>
          (case parseSessionFile (file_lines f) sessionId (decodeProjectPath (dir_name d))
                  fmt incl limit offset of
             Inr r \<Rightarrow> Inr r
           | Inl e \<Rightarrow> getSessionLoop ds sessionId fmt incl limit offset))"

record GetSessionArgs =
  gs_sessionId :: "string option"
  gs_format :: "format option"
  gs_includeToolCalls :: "bool option"
  gs_limit :: "int option"
  gs_offset :: "int option"

definition getSession ::
  "store \<Rightarrow> string \<Rightarrow> format option \<Rightarrow> bool option \<Rightarrow> int \<Rightarrow> int \<Rightarrow> error + SessionResult" where
  "getSession st sessionId fmt incl limit offset =
     (case st of
        ReaddirError e \<Rightarrow> Inl (Error e)
      | Entries projectDirs \<Rightarrow>
          getSessionLoop projectDirs sessionId
            (case fmt of None \<Rightarrow> Standard | Some f \<Rightarrow> f)
            (case incl of None \<Rightarrow> False | Some b \<Rightarrow> b) limit offset)"

definition validatedLimit :: "int \<Rightarrow> int option \<Rightarrow> int \<Rightarrow> int" where
  "validatedLimit dflt limit cap = min (max 1 (case limit of None \<Rightarrow> dflt | Some l \<Rightarrow> l)) cap"

definition validatedOffset :: "int option \<Rightarrow> int" where
  "validatedOffset offset = max 0 (case offset of None \<Rightarrow> 0 | Some off \<Rightarrow> off)"

definition getSessionHandler :: "store \<Rightarrow> GetSessionArgs \<Rightarrow> SessionResult ToolResult" where
  "getSessionHandler st args =
     (if \<not> truthy (gs_sessionId args)
      then ErrorResponse ''sessionId parameter is required and must be a string''
      else
        (case getSession st (orElse (gs_sessionId args) []) (gs_format args)
                (gs_includeToolCalls args) (validatedLimit 50 (gs_limit args) 200)
                (validatedOffset (gs_offset args)) of
           Inr result \<Rightarrow> SuccessResponse result
         | Inl e \<Rightarrow> ErrorResponse (errorMessage e)))"

subsection \<open>getSessionSummary\<close>

record SummaryResult =
  sum_sessionId :: string
  sum_summary :: string
  sum_project :: string
  sum_messageCount :: nat
  sum_startedAt :: string
  sum_lastActivityAt :: string

definition dataAsLegacy :: "session_data \<Rightarrow> LegacyMessage list" where
  "dataAsLegacy d = (case d of LegacyData ms \<Rightarrow> ms | _ \<Rightarrow> [])"

definition fallbackSummary :: "SessionResult \<Rightarrow> string" where
  "fallbackSummary session =
     (case find (\<lambda>m. lm_role m = User) (dataAsLegacy (sr_data session)) of
        None \<Rightarrow> ''No summary available''
      | Some firstUserMessage \<Rightarrow>
          (let s = take 200 (lm_content firstUserMessage)
           in if s = [] then ''No summary available'' else s))"

fun getSessionSummaryLoop :: "ProjectDir list \<Rightarrow> string \<Rightarrow> error + SummaryResult" where
  "getSessionSummaryLoop [] sessionId = Inl (Error (''Session '' @ sessionId @ '' not found''))"
| "getSessionSummaryLoop (d # ds) sessionId =
     (case statFile d (sessionId @ ''.jsonl'') of
        None \<Rightarrow> getSessionSummaryLoop ds sessionId
      | Some f \<Rightarrow>
          (let projectPath = decodeProjectPath (dir_name d) in
           case getSessionInfo (file_lines f) sessionId projectPath of
             None \<Rightarrow> getSessionSummaryLoop ds sessionId
           | Some info \<Rightarrow>
               (let done = (\<lambda>summaryText.
                      Inr \<lparr>sum_sessionId = sessionId, sum_summary = summaryText,
                           sum_project = si_project info,
                           sum_messageCount = si_messageCount info,
                           sum_startedAt = si_startedAt info,
                           sum_lastActivityAt = si_lastActivityAt info\<rparr>)
                in if truthy (si_summary info) then done (orElse (si_summary info) [])
                   else
                     (case parseSessionFile (file_lines f) sessionId projectPath Json False 1 0 of
                        Inl e \<Rightarrow> getSessionSummaryLoop ds sessionId
                      | Inr session \<Rightarrow> done (fallbackSummary session)))))"

definition getSessionSummary :: "store \<Rightarrow> string \<Rightarrow> error + SummaryResult" where
  "getSessionSummary st sessionId =
     (case st of
        ReaddirError e \<Rightarrow> Inl (Error e)
      | Entries projectDirs \<Rightarrow> getSessionSummaryLoop projectDirs sessionId)"

definition getSessionSummaryHandler :: "store \<Rightarrow> string option \<Rightarrow> SummaryResult ToolResult" where
  "getSessionSummaryHandler st sessionId =
     (if \<not> truthy sessionId
      then ErrorResponse ''sessionId parameter is required and must be a string''
      else
        (case getSessionSummary st (orElse sessionId []) of
           Inr result \<Rightarrow> SuccessResponse result
         | Inl e \<Rightarrow> ErrorResponse (errorMessage e)))"

section \<open>Numbers, dates and durations\<close>

definition digitChar :: "nat \<Rightarrow> char" where
  "digitChar n = char_of (48 + n)"

function showNat :: "nat \<Rightarrow> string" where
  "showNat n = (if n < 10 then [digitChar n] else showNat (n div 10) @ [digitChar (n mod 10)])"
  by pat_completeness auto
termination
  by (relation "measure id") auto

definition showInt :: "int \<Rightarrow> string" where
  "showInt i = (if i < 0 then CHR ''-'' # showNat (nat (- i)) else showNat (nat i))"

text \<open>
  \<^verbatim>\<open>formatDuration\<close> (the timeline and the comparison carry the same copy).
  \<^verbatim>\<open>Math.floor(x / k)\<close> is \<open>div\<close> on integers.
\<close>

definition formatDuration :: "int \<Rightarrow> string" where
  "formatDuration ms =
     (let seconds = ms div 1000; minutes = seconds div 60; hours = minutes div 60
      in if hours > 0 then showInt hours @ ''h '' @ showInt (minutes mod 60) @ ''m''
         else if minutes > 0 then showInt minutes @ ''m '' @ showInt (seconds mod 60) @ ''s''
         else showInt seconds @ ''s'')"

text \<open>
  Timestamps are ISO-8601 strings. \<^verbatim>\<open>new Date(s).getTime()\<close> is the platform's:
  every function that reads a date takes it as the parameter \<open>getTime\<close>, from a
  timestamp to milliseconds since the epoch, and the clock reading of
  \<^verbatim>\<open>new Date()\<close> as the parameter \<open>now\<close>.
\<close>

type_synonym clock = "string \<Rightarrow> int"

text \<open>
  A \<^verbatim>\<open>Record<string, number>\<close> counted up key by key, in insertion order:
  \<^verbatim>\<open>r[k] = (r[k] || 0) + 1\<close>.
\<close>

fun bump :: "('k \<times> nat) list \<Rightarrow> 'k \<Rightarrow> ('k \<times> nat) list" where
  "bump [] k = [(k, 1)]"
| "bump ((k', n) # kvs) k = (if k' = k then (k', n + 1) # kvs else (k', n) # bump kvs k)"

text \<open>A field of a tool input, as \<^verbatim>\<open>tool.input?.f\<close> reads it.\<close>

definition field :: "tool_input \<Rightarrow> string \<Rightarrow> string option" where
  "field inp f = map_of inp f"

text \<open>\<^verbatim>\<open>extractToolCalls\<close> of the timeline and of the comparison.\<close>

record ToolCallRec =
  tc_name :: "string option"
  tc_input :: tool_input

fun itemInput :: "item \<Rightarrow> tool_input" where
  "itemInput (ItemString s) = []"
| "itemInput (ItemObject ty tx nm inp) = (case inp of None \<Rightarrow> [] | Some i \<Rightarrow> i)"

fun extractToolCalls :: "content \<Rightarrow> ToolCallRec list" where
  "extractToolCalls (CArray items) =
     map (\<lambda>i. \<lparr>tc_name = itemName i, tc_input = itemInput i\<rparr>) (filter isToolUse items)"
| "extractToolCalls c = []"

section \<open>get_session_timeline\<close>

datatype event_type = UserMessage | AssistantMessage | ToolCall | AgentSpawnEvent | SummaryUpdate

record TimelineEvent =
  ev_timestamp :: string
  ev_type :: event_type
  ev_details :: "string option"
  ev_content :: "string option"

record TimelineState =
  tl_timeline :: "TimelineEvent list"
  tl_summary :: "string option"
  tl_gitBranch :: "string option"
  tl_startedAt :: "string option"
  tl_endedAt :: "string option"
  tl_userMessages :: nat
  tl_assistantMessages :: nat
  tl_toolCallCount :: nat
  tl_agentSpawnCount :: nat

definition timelineInit :: TimelineState where
  "timelineInit = \<lparr>tl_timeline = [], tl_summary = None, tl_gitBranch = None,
     tl_startedAt = None, tl_endedAt = None, tl_userMessages = 0, tl_assistantMessages = 0,
     tl_toolCallCount = 0, tl_agentSpawnCount = 0\<rparr>"

text \<open>\<^verbatim>\<open>path.split('/').pop()\<close>\<close>

definition lastSegment :: "string \<Rightarrow> string" where
  "lastSegment path = rev (takeWhile (\<lambda>c. c \<noteq> CHR ''/'') (rev path))"

definition toolDetails :: "ToolCallRec \<Rightarrow> string option" where
  "toolDetails tool =
     (let file_path = field (tc_input tool) ''file_path''
      in if tc_name tool = Some ''Read'' \<and> truthy file_path
         then Some (''Read: '' @ lastSegment (orElse file_path []))
         else if tc_name tool = Some ''Write'' \<and> truthy file_path
         then Some (''Write: '' @ lastSegment (orElse file_path []))
         else if tc_name tool = Some ''Edit'' \<and> truthy file_path
         then Some (''Edit: '' @ lastSegment (orElse file_path []))
         else if tc_name tool = Some ''Bash'' \<and> truthy (field (tc_input tool) ''command'')
         then Some (''Bash: '' @ take 50 (orElse (field (tc_input tool) ''command'') []))
         else tc_name tool)"

definition toolStep :: "string \<Rightarrow> TimelineState \<Rightarrow> ToolCallRec \<Rightarrow> TimelineState" where
  "toolStep ts st tool =
     (if tc_name tool = Some ''Task''
      then st\<lparr>tl_agentSpawnCount := tl_agentSpawnCount st + 1,
              tl_timeline := tl_timeline st @
                [\<lparr>ev_timestamp = ts, ev_type = AgentSpawnEvent,
                  ev_details = Some (''Spawned '' @
                    orElse (field (tc_input tool) ''subagent_type'') ''unknown'' @ '': '' @
                    orElse (field (tc_input tool) ''description'') []),
                  ev_content = None\<rparr>]\<rparr>
      else st\<lparr>tl_toolCallCount := tl_toolCallCount st + 1,
              tl_timeline := tl_timeline st @
                [\<lparr>ev_timestamp = ts, ev_type = ToolCall, ev_details = toolDetails tool,
                  ev_content = None\<rparr>]\<rparr>)"

definition userEvent :: "bool \<Rightarrow> string \<Rightarrow> content \<Rightarrow> TimelineState \<Rightarrow> TimelineState" where
  "userEvent includeContent ts c st =
     (let textContent = extractTextContent c
      in st\<lparr>tl_userMessages := tl_userMessages st + 1,
            tl_timeline := tl_timeline st @
              [\<lparr>ev_timestamp = ts, ev_type = UserMessage,
                ev_details = Some (''User message ('' @ showNat (length textContent) @ '' chars)''),
                ev_content = (if includeContent then Some textContent else None)\<rparr>]\<rparr>)"

definition assistantEvents :: "bool \<Rightarrow> string \<Rightarrow> content \<Rightarrow> TimelineState \<Rightarrow> TimelineState" where
  "assistantEvents includeContent ts c st =
     (let a = st\<lparr>tl_assistantMessages := tl_assistantMessages st + 1\<rparr>;
          toolCalls = extractToolCalls c;
          textContent = extractTextContent c;
          b = (if textContent \<noteq> []
               then a\<lparr>tl_timeline := tl_timeline a @
                      [\<lparr>ev_timestamp = ts, ev_type = AssistantMessage,
                        ev_details = Some (''Assistant response ('' @
                          showNat (length textContent) @ '' chars)''),
                        ev_content = (if includeContent then Some textContent else None)\<rparr>]\<rparr>
               else a)
      in foldl (toolStep ts) b toolCalls)"

fun timelineStep :: "bool \<Rightarrow> TimelineState \<Rightarrow> line \<Rightarrow> TimelineState" where
  "timelineStep includeContent st Blank = st"
| "timelineStep includeContent st Malformed = st"
| "timelineStep includeContent st (Decoded msg) =
     (if msg_type msg = Summary \<and> truthy (msg_summary msg)
      then st\<lparr>tl_summary := msg_summary msg\<rparr>
      else
        (let ts = orElse (msg_timestamp msg) [];
             a = (if truthy (msg_gitBranch msg) \<and> \<not> truthy (tl_gitBranch st)
                  then st\<lparr>tl_gitBranch := msg_gitBranch msg\<rparr> else st);
             b = (if truthy (msg_timestamp msg)
                  then (if \<not> truthy (tl_startedAt a)
                        then a\<lparr>tl_startedAt := msg_timestamp msg\<rparr>
                        else a)\<lparr>tl_endedAt := msg_timestamp msg\<rparr>
                  else a);
             c = (case msg_message msg of
                    None \<Rightarrow> b
                  | Some m \<Rightarrow> if msg_type msg = User then userEvent includeContent ts m b else b)
         in case msg_message msg of
              None \<Rightarrow> c
            | Some m \<Rightarrow>
                if msg_type msg = Assistant then assistantEvents includeContent ts m c else c))"

datatype timeline_format = TFull | TStandard | TMinimal

datatype timeline_data = Events "TimelineEvent list" | EventCounts "(event_type \<times> nat) list"

record SessionTimeline =
  st_sessionId :: string
  st_project :: string
  st_summary :: "string option"
  st_gitBranch :: "string option"
  st_duration :: string
  st_startedAt :: string
  st_endedAt :: string
  st_eventCount :: nat
  st_messageCount :: "nat \<times> nat"
  st_toolCallCount :: nat
  st_agentSpawnCount :: nat
  st_data :: timeline_data
  st_total :: nat
  st_hasMore :: bool


definition timelineOfFile ::
  "clock \<Rightarrow> line list \<Rightarrow> string \<Rightarrow> string \<Rightarrow> bool \<Rightarrow> timeline_format \<Rightarrow> int \<Rightarrow> int \<Rightarrow>
   SessionTimeline ToolResult" where
  "timelineOfFile getTime lines sessionId projectPath includeContent fmt limit offset =
     (let st = foldl (timelineStep includeContent) timelineInit lines in
      if \<not> truthy (tl_startedAt st)
      then ErrorResponse ''Invalid session file: no timestamps found''
      else
        (let startedAt = orElse (tl_startedAt st) [];
             durationMs = (if truthy (tl_endedAt st)
                           then getTime (orElse (tl_endedAt st) []) - getTime startedAt else 0);
             timeline = tl_timeline st;
             total = length timeline;
             paginatedTimeline = slice timeline offset (offset + limit);
             hasMore = (offset + limit < int total)
         in SuccessResponse
              \<lparr>st_sessionId = sessionId, st_project = projectPath,
               st_summary = tl_summary st, st_gitBranch = tl_gitBranch st,
               st_duration = formatDuration durationMs,
               st_startedAt = startedAt,
               st_endedAt = orElse (tl_endedAt st) startedAt,
               st_eventCount = total,
               st_messageCount = (tl_userMessages st, tl_assistantMessages st),
               st_toolCallCount = tl_toolCallCount st,
               st_agentSpawnCount = tl_agentSpawnCount st,
               st_data = (if fmt = TMinimal
                          then EventCounts (foldl bump [] (map ev_type timeline))
                          else Events paginatedTimeline),
               st_total = total,
               st_hasMore = (if fmt = TMinimal then False else hasMore)\<rparr>))"



section \<open>get_agent_activity\<close>












section \<open>Sorting\<close>

text \<open>
  \<^verbatim>\<open>Array.prototype.sort\<close> with a comparator is a stable sort: an insertion sort
  that puts \<open>x\<close> before the first \<open>y\<close> with \<open>cmp x y \<le> 0\<close>.
\<close>

fun insertBy :: "('a \<Rightarrow> 'a \<Rightarrow> int) \<Rightarrow> 'a \<Rightarrow> 'a list \<Rightarrow> 'a list" where
  "insertBy cmp x [] = [x]"
| "insertBy cmp x (y # ys) = (if cmp x y \<le> 0 then x # y # ys else y # insertBy cmp x ys)"

definition sortBy :: "('a \<Rightarrow> 'a \<Rightarrow> int) \<Rightarrow> 'a list \<Rightarrow> 'a list" where
  "sortBy cmp xs = foldr (insertBy cmp) xs []"

definition sessionFileName :: "string \<Rightarrow> bool" where
  "sessionFileName file = (endsWith file ''.jsonl'' \<and> \<not> startsWith file ''agent-'')"

text \<open>\<^verbatim>\<open>project && !projectPath.includes(project)\<close>\<close>

definition projectFiltered :: "string option \<Rightarrow> string \<Rightarrow> bool" where
  "projectFiltered project projectPath =
     (truthy project \<and> \<not> includesStr projectPath (orElse project []))"

section \<open>list_sessions\<close>

datatype sort_key = ByDate | BySize

datatype sort_order = Asc | Desc

record ListOptions =
  lo_project :: "string option"
  lo_since :: "string option"
  lo_until :: "string option"
  lo_sortBy :: "sort_key option"
  lo_sortOrder :: "sort_order option"
  lo_limit :: "int option"

fun listFiles ::
  "clock \<Rightarrow> int \<Rightarrow> int \<Rightarrow> int \<Rightarrow> string \<Rightarrow> SessionFile list \<Rightarrow> SessionInfo list \<Rightarrow>
   SessionInfo list" where
  "listFiles getTime sinceDate untilDate limit projectPath [] sessions = sessions"
| "listFiles getTime sinceDate untilDate limit projectPath (f # fs) sessions =
     (if \<not> sessionFileName (file_name f)
      then listFiles getTime sinceDate untilDate limit projectPath fs sessions
      else
        (case getSessionInfo (file_lines f) (removeFirst (file_name f) ''.jsonl'') projectPath of
           None \<Rightarrow> listFiles getTime sinceDate untilDate limit projectPath fs sessions
         | Some sessionInfo \<Rightarrow>
             (let sessionDate = getTime (si_startedAt sessionInfo) in
              if sessionDate < sinceDate \<or> sessionDate > untilDate
              then listFiles getTime sinceDate untilDate limit projectPath fs sessions
              else
                (let sessions' = sessions @ [sessionInfo\<lparr>si_sizeBytes := file_size f\<rparr>]
                 in if int (length sessions') \<ge> limit * 10 then sessions'
                    else listFiles getTime sinceDate untilDate limit projectPath fs sessions'))))"

text \<open>
  Here \<^verbatim>\<open>readdir(sessionDir)\<close> stands outside any \<^verbatim>\<open>try\<close>: a project
  directory that cannot be listed fails the call.
\<close>

fun listProjects ::
  "clock \<Rightarrow> string option \<Rightarrow> int \<Rightarrow> int \<Rightarrow> int \<Rightarrow> ProjectDir list \<Rightarrow> SessionInfo list \<Rightarrow>
   error + SessionInfo list" where
  "listProjects getTime project sinceDate untilDate limit [] sessions = Inr sessions"
| "listProjects getTime project sinceDate untilDate limit (d # ds) sessions =
     (let projectPath = decodeProjectPath (dir_name d) in
      if projectFiltered project projectPath
      then listProjects getTime project sinceDate untilDate limit ds sessions
      else
        (case dir_files d of
           ReaddirError e \<Rightarrow> Inl (Error e)
         | Entries files \<Rightarrow>
             listProjects getTime project sinceDate untilDate limit ds
               (listFiles getTime sinceDate untilDate limit projectPath files sessions)))"

definition sessionCompare ::
  "clock \<Rightarrow> sort_key \<Rightarrow> sort_order \<Rightarrow> SessionInfo \<Rightarrow> SessionInfo \<Rightarrow> int" where
  "sessionCompare getTime sortKey sortOrder a b =
     (let comparison =
        (if sortKey = ByDate then getTime (si_startedAt a) - getTime (si_startedAt b)
         else int (si_sizeBytes a) - int (si_sizeBytes b))
      in if sortOrder = Desc then - comparison else comparison)"

record ListResult =
  lr_sessions :: "SessionInfo list"
  lr_total :: nat

definition listSessions :: "clock \<Rightarrow> int \<Rightarrow> store \<Rightarrow> ListOptions \<Rightarrow> error + ListResult" where
  "listSessions getTime now st options =
     (let limit = (case lo_limit options of None \<Rightarrow> 50 | Some l \<Rightarrow> l);
          sortKey = (case lo_sortBy options of None \<Rightarrow> ByDate | Some k \<Rightarrow> k);
          sortOrder = (case lo_sortOrder options of None \<Rightarrow> Desc | Some ord \<Rightarrow> ord)
      in case st of
           ReaddirError e \<Rightarrow> Inl (Error e)
         | Entries projectDirs \<Rightarrow>
             (let sinceDate = (if truthy (lo_since options)
                               then getTime (orElse (lo_since options) []) else 0);
                  untilDate = (if truthy (lo_until options)
                               then getTime (orElse (lo_until options) []) else now)
              in case listProjects getTime (lo_project options) sinceDate untilDate limit
                        projectDirs [] of
                   Inl e \<Rightarrow> Inl e
                 | Inr sessions \<Rightarrow>
                     (let sorted = sortBy (sessionCompare getTime sortKey sortOrder) sessions
                      in Inr \<lparr>lr_sessions = slice sorted 0 limit,
                              lr_total = length sorted\<rparr>)))"

definition listSessionsHandler ::
  "clock \<Rightarrow> int \<Rightarrow> store \<Rightarrow> ListOptions \<Rightarrow> ListResult ToolResult" where
  "listSessionsHandler getTime now st args =
     (case listSessions getTime now st args of
        Inr result \<Rightarrow> SuccessResponse result
      | Inl e \<Rightarrow> ErrorResponse (errorMessage e))"

section \<open>search_session_content\<close>

datatype role_filter = RoleUser | RoleAssistant | RoleBoth

record ContentSearchResult =
  cs_sessionId :: string
  cs_project :: string
  cs_role :: msg_type
  cs_content :: string
  cs_timestamp :: string
  cs_matchContext :: string

definition getMatchContext :: "string \<Rightarrow> string \<Rightarrow> nat \<Rightarrow> string" where
  "getMatchContext content query contextLength =
     (case indexOf (toLowerCase content) (toLowerCase query) of
        None \<Rightarrow> take 200 content
      | Some matchIndex \<Rightarrow>
          (let start = matchIndex - contextLength;
               fin = min (length content) (matchIndex + length query + contextLength);
               context = take (fin - start) (drop start content);
               context1 = (if start > 0 then ''...'' @ context else context)
           in if fin < length content then context1 @ ''...'' else context1))"

definition roleAllows :: "role_filter \<Rightarrow> msg_type \<Rightarrow> bool" where
  "roleAllows role t =
     (role = RoleBoth \<or> (role = RoleUser \<and> t = User) \<or> (role = RoleAssistant \<and> t = Assistant))"

text \<open>The body of the \<^verbatim>\<open>try\<close> for one decoded record.\<close>

definition searchRecord ::
  "clock \<Rightarrow> string \<Rightarrow> role_filter \<Rightarrow> int \<Rightarrow> int \<Rightarrow> string \<Rightarrow> string \<Rightarrow> SessionMessage \<Rightarrow>
   ContentSearchResult list \<Rightarrow> ContentSearchResult list" where
  "searchRecord getTime query role sinceDate untilDate sessionId projectPath msg results =
     (if \<not> isMessage msg then results
      else if \<not> roleAllows role (msg_type msg) then results
      else if truthy (msg_timestamp msg) \<and>
              (getTime (orElse (msg_timestamp msg) []) < sinceDate \<or>
               getTime (orElse (msg_timestamp msg) []) > untilDate) then results
      else
        (case msg_message msg of
           None \<Rightarrow> results
         | Some c \<Rightarrow>
             (let contentText = extractContentTextSearch c in
              if includesStr (toLowerCase contentText) (toLowerCase query)
              then results @
                [\<lparr>cs_sessionId = sessionId, cs_project = projectPath, cs_role = msg_type msg,
                  cs_content = take 500 contentText,
                  cs_timestamp = orElse (msg_timestamp msg) [],
                  cs_matchContext = getMatchContext contentText query 100\<rparr>]
              else results)))"

fun searchLines ::
  "clock \<Rightarrow> string \<Rightarrow> role_filter \<Rightarrow> int \<Rightarrow> int \<Rightarrow> int \<Rightarrow> string \<Rightarrow> string \<Rightarrow> line list \<Rightarrow>
   ContentSearchResult list \<Rightarrow> ContentSearchResult list" where
  "searchLines getTime query role sinceDate untilDate limit sessionId projectPath [] results =
     results"
| "searchLines getTime query role sinceDate untilDate limit sessionId projectPath (l # ls) results =
     (case l of
        Blank \<Rightarrow>
          searchLines getTime query role sinceDate untilDate limit sessionId projectPath ls results
      | Malformed \<Rightarrow>
          if int (length results) \<ge> limit then results
          else searchLines getTime query role sinceDate untilDate limit sessionId projectPath ls
                 results
      | Decoded msg \<Rightarrow>
          if int (length results) \<ge> limit then results
          else searchLines getTime query role sinceDate untilDate limit sessionId projectPath ls
                 (searchRecord getTime query role sinceDate untilDate sessionId projectPath msg
                    results))"

fun searchFiles ::
  "clock \<Rightarrow> string \<Rightarrow> role_filter \<Rightarrow> int \<Rightarrow> int \<Rightarrow> int \<Rightarrow> string \<Rightarrow> SessionFile list \<Rightarrow>
   ContentSearchResult list \<Rightarrow> ContentSearchResult list" where
  "searchFiles getTime query role sinceDate untilDate limit projectPath [] results = results"
| "searchFiles getTime query role sinceDate untilDate limit projectPath (f # fs) results =
     (if \<not> sessionFileName (file_name f)
      then searchFiles getTime query role sinceDate untilDate limit projectPath fs results
      else
        (let results' =
           searchLines getTime query role sinceDate untilDate limit
             (removeFirst (file_name f) ''.jsonl'') projectPath (file_lines f) results
         in if int (length results') \<ge> limit then results'
            else searchFiles getTime query role sinceDate untilDate limit projectPath fs results'))"

fun searchProjects ::
  "clock \<Rightarrow> string \<Rightarrow> string option \<Rightarrow> role_filter \<Rightarrow> int \<Rightarrow> int \<Rightarrow> int \<Rightarrow> ProjectDir list \<Rightarrow>
   ContentSearchResult list \<Rightarrow> ContentSearchResult list" where
  "searchProjects getTime query project role sinceDate untilDate limit [] results = results"
| "searchProjects getTime query project role sinceDate untilDate limit (d # ds) results =
     (let projectPath = decodeProjectPath (dir_name d) in
      if projectFiltered project projectPath
      then searchProjects getTime query project role sinceDate untilDate limit ds results
      else
        (case dir_files d of
           ReaddirError e \<Rightarrow>
             searchProjects getTime query project role sinceDate untilDate limit ds results
         | Entries files \<Rightarrow>
             (let results' =
                searchFiles getTime query role sinceDate untilDate limit projectPath files results
              in if int (length results') \<ge> limit then results'
                 else searchProjects getTime query project role sinceDate untilDate limit ds
                        results')))"

record SearchArgs =
  sa_query :: "string option"
  sa_project :: "string option"
  sa_role :: "role_filter option"
  sa_since :: "string option"
  sa_until :: "string option"
  sa_limit :: "int option"

record SearchResult =
  srch_results :: "ContentSearchResult list"
  srch_total :: nat
  srch_query :: string

text \<open>The list \<^verbatim>\<open>results\<close> as it stands when the loops end, before sorting and slicing.\<close>

definition searchAccumulated ::
  "clock \<Rightarrow> int \<Rightarrow> ProjectDir list \<Rightarrow> SearchArgs \<Rightarrow> ContentSearchResult list" where
  "searchAccumulated getTime now projectDirs args =
     searchProjects getTime (orElse (sa_query args) []) (sa_project args)
       (case sa_role args of None \<Rightarrow> RoleBoth | Some r \<Rightarrow> r)
       (if truthy (sa_since args) then getTime (orElse (sa_since args) []) else 0)
       (if truthy (sa_until args) then getTime (orElse (sa_until args) []) else now)
       (case sa_limit args of None \<Rightarrow> 20 | Some l \<Rightarrow> l)
       projectDirs []"

definition searchSessionContentHandler ::
  "clock \<Rightarrow> int \<Rightarrow> store \<Rightarrow> SearchArgs \<Rightarrow> SearchResult ToolResult" where
  "searchSessionContentHandler getTime now st args =
     (if \<not> truthy (sa_query args)
      then ErrorResponse ''query parameter is required and must be a string''
      else
        (case st of
           ReaddirError e \<Rightarrow> ErrorResponse ''Could not read Claude projects directory''
         | Entries projectDirs \<Rightarrow>
             (let limit = (case sa_limit args of None \<Rightarrow> 20 | Some l \<Rightarrow> l);
                  results = sortBy (\<lambda>a b. getTime (cs_timestamp b) - getTime (cs_timestamp a))
                              (searchAccumulated getTime now projectDirs args)
              in SuccessResponse
                   \<lparr>srch_results = slice results 0 limit, srch_total = length results,
                    srch_query = orElse (sa_query args) []\<rparr>)))"

section \<open>find_sessions_by_branch\<close>

record BranchSessionResult =
  br_sessionId :: string
  br_project :: string
  br_summary :: "string option"
  br_gitBranch :: string
  br_messageCount :: nat
  br_startedAt :: string
  br_lastActivityAt :: string
  br_sizeBytes :: nat

definition branchMatches :: "bool \<Rightarrow> string \<Rightarrow> string \<Rightarrow> bool" where
  "branchMatches exactMatch gitBranch branchLower =
     (if exactMatch then toLowerCase gitBranch = branchLower
      else includesStr (toLowerCase gitBranch) branchLower)"

text \<open>
  The row one session file contributes, if any. The handler's read loop is the same text
  as the loop of \<^verbatim>\<open>getSessionInfo\<close>, so it is the same step function here.
\<close>

definition branchRow ::
  "bool \<Rightarrow> string \<Rightarrow> string \<Rightarrow> SessionFile \<Rightarrow> BranchSessionResult option" where
  "branchRow exactMatch branchLower projectPath f =
     (let st = foldl infoStep infoInit (file_lines f) in
      if truthy (is_gitBranch st) \<and> truthy (is_startedAt st) \<and>
         branchMatches exactMatch (orElse (is_gitBranch st) []) branchLower
      then Some \<lparr>br_sessionId = removeFirst (file_name f) ''.jsonl'',
                 br_project = projectPath,
                 br_summary = orUndefined (is_summary st),
                 br_gitBranch = orElse (is_gitBranch st) [],
                 br_messageCount = is_messageCount st,
                 br_startedAt = orElse (is_startedAt st) [],
                 br_lastActivityAt =
                   orElse (is_lastActivityAt st) (orElse (is_startedAt st) []),
                 br_sizeBytes = file_size f\<rparr>
      else None)"

fun branchFiles ::
  "bool \<Rightarrow> string \<Rightarrow> int \<Rightarrow> string \<Rightarrow> SessionFile list \<Rightarrow> BranchSessionResult list \<Rightarrow>
   BranchSessionResult list" where
  "branchFiles exactMatch branchLower limit projectPath [] results = results"
| "branchFiles exactMatch branchLower limit projectPath (f # fs) results =
     (if \<not> sessionFileName (file_name f)
      then branchFiles exactMatch branchLower limit projectPath fs results
      else
        (let results' =
           (case branchRow exactMatch branchLower projectPath f of
              None \<Rightarrow> results
            | Some row \<Rightarrow> results @ [row])
         in if int (length results') \<ge> limit * 2 then results'
            else branchFiles exactMatch branchLower limit projectPath fs results'))"

fun branchProjects ::
  "bool \<Rightarrow> string \<Rightarrow> string option \<Rightarrow> int \<Rightarrow> ProjectDir list \<Rightarrow> BranchSessionResult list \<Rightarrow>
   BranchSessionResult list" where
  "branchProjects exactMatch branchLower project limit [] results = results"
| "branchProjects exactMatch branchLower project limit (d # ds) results =
     (let projectPath = decodeProjectPath (dir_name d) in
      if projectFiltered project projectPath
      then branchProjects exactMatch branchLower project limit ds results
      else
        (case dir_files d of
           ReaddirError e \<Rightarrow> branchProjects exactMatch branchLower project limit ds results
         | Entries files \<Rightarrow>
             branchProjects exactMatch branchLower project limit ds
               (branchFiles exactMatch branchLower limit projectPath files results)))"

record BranchArgs =
  ba_branch :: "string option"
  ba_project :: "string option"
  ba_exactMatch :: "bool option"
  ba_limit :: "int option"

record BranchResult =
  bres_results :: "BranchSessionResult list"
  bres_total :: nat
  bres_searchedBranch :: string
  bres_exactMatch :: bool

text \<open>The list \<^verbatim>\<open>results\<close> as it stands when the loops end, before sorting and slicing.\<close>

definition branchAccumulated :: "ProjectDir list \<Rightarrow> BranchArgs \<Rightarrow> BranchSessionResult list" where
  "branchAccumulated projectDirs args =
     branchProjects (case ba_exactMatch args of None \<Rightarrow> False | Some b \<Rightarrow> b)
       (toLowerCase (orElse (ba_branch args) [])) (ba_project args)
       (case ba_limit args of None \<Rightarrow> 20 | Some l \<Rightarrow> l) projectDirs []"

definition findSessionsByBranchHandler ::
  "clock \<Rightarrow> store \<Rightarrow> BranchArgs \<Rightarrow> BranchResult ToolResult" where
  "findSessionsByBranchHandler getTime st args =
     (if \<not> truthy (ba_branch args)
      then ErrorResponse ''branch parameter is required and must be a string''
      else
        (case st of
           ReaddirError e \<Rightarrow> ErrorResponse ''Could not read Claude projects directory''
         | Entries projectDirs \<Rightarrow>
             (let limit = (case ba_limit args of None \<Rightarrow> 20 | Some l \<Rightarrow> l);
                  results = sortBy (\<lambda>a b. getTime (br_startedAt b) - getTime (br_startedAt a))
                              (branchAccumulated projectDirs args)
              in SuccessResponse
                   \<lparr>bres_results = slice results 0 limit, bres_total = length results,
                    bres_searchedBranch = orElse (ba_branch args) [],
                    bres_exactMatch = (case ba_exactMatch args of None \<Rightarrow> False | Some b \<Rightarrow> b)\<rparr>)))"

section \<open>compare_sessions\<close>

record SessionStats =
  ss_sessionId :: string
  ss_project :: string
  ss_summary :: "string option"
  ss_gitBranch :: "string option"
  ss_startedAt :: string
  ss_endedAt :: string
  ss_durationMs :: int
  ss_durationFormatted :: string
  ss_userMessages :: nat
  ss_assistantMessages :: nat
  ss_totalMessages :: nat
  ss_toolsUsed :: "(string \<times> nat) list"
  ss_uniqueToolCount :: nat
  ss_totalToolCalls :: nat
  ss_agentSpawns :: "(string \<times> string) list"
  ss_filesAccessed :: "string list option"

record StatsState =
  sst_summary :: "string option"
  sst_gitBranch :: "string option"
  sst_startedAt :: "string option"
  sst_endedAt :: "string option"
  sst_userMessages :: nat
  sst_assistantMessages :: nat
  sst_toolsUsed :: "(string \<times> nat) list"
  sst_agentSpawns :: "(string \<times> string) list"
  sst_filesAccessed :: "string list"

definition statsInit :: StatsState where
  "statsInit = \<lparr>sst_summary = None, sst_gitBranch = None, sst_startedAt = None,
     sst_endedAt = None, sst_userMessages = 0, sst_assistantMessages = 0, sst_toolsUsed = [],
     sst_agentSpawns = [], sst_filesAccessed = []\<rparr>"

text \<open>A property key: \<^verbatim>\<open>toolsUsed[tool.name]\<close> with no name is the key \<open>undefined\<close>.\<close>

definition nameKey :: "string option \<Rightarrow> string" where
  "nameKey n = (case n of None \<Rightarrow> ''undefined'' | Some s \<Rightarrow> s)"

text \<open>\<^verbatim>\<open>set.add(x)\<close> on a set kept in insertion order.\<close>

definition setAdd :: "'a list \<Rightarrow> 'a \<Rightarrow> 'a list" where
  "setAdd xs x = (if x \<in> set xs then xs else xs @ [x])"


definition statsToolStep :: "StatsState \<Rightarrow> ToolCallRec \<Rightarrow> StatsState" where
  "statsToolStep st tool =
     (let a = st\<lparr>sst_toolsUsed := bump (sst_toolsUsed st) (nameKey (tc_name tool))\<rparr>;
          b = (if tc_name tool = Some ''Task''
               then a\<lparr>sst_agentSpawns := sst_agentSpawns a @
                      [(orElse (field (tc_input tool) ''subagent_type'') ''unknown'',
                        orElse (field (tc_input tool) ''description'') [])]\<rparr>
               else a);
          filePath = (if truthy (field (tc_input tool) ''file_path'')
                      then field (tc_input tool) ''file_path''
                      else field (tc_input tool) ''path'')
      in if truthy filePath \<and> tc_name tool \<in> {Some ''Read'', Some ''Write'', Some ''Edit''}
         then b\<lparr>sst_filesAccessed := setAdd (sst_filesAccessed b) (orElse filePath [])\<rparr>
         else b)"

fun statsStep :: "StatsState \<Rightarrow> line \<Rightarrow> StatsState" where
  "statsStep st Blank = st"
| "statsStep st Malformed = st"
| "statsStep st (Decoded msg) =
     (let a = (if msg_type msg = Summary \<and> truthy (msg_summary msg)
               then st\<lparr>sst_summary := msg_summary msg\<rparr> else st);
          b = (if truthy (msg_gitBranch msg) \<and> \<not> truthy (sst_gitBranch a)
               then a\<lparr>sst_gitBranch := msg_gitBranch msg\<rparr> else a);
          c = (if truthy (msg_timestamp msg)
               then (if \<not> truthy (sst_startedAt b)
                     then b\<lparr>sst_startedAt := msg_timestamp msg\<rparr>
                     else b)\<lparr>sst_endedAt := msg_timestamp msg\<rparr>
               else b);
          d = (if msg_type msg = User then c\<lparr>sst_userMessages := sst_userMessages c + 1\<rparr>
               else c)
      in case msg_message msg of
           None \<Rightarrow> d
         | Some m \<Rightarrow>
             if msg_type msg = Assistant
             then foldl statsToolStep
                    (d\<lparr>sst_assistantMessages := sst_assistantMessages d + 1\<rparr>)
                    (extractToolCalls m)
             else d)"

definition statsOfFile ::
  "clock \<Rightarrow> line list \<Rightarrow> string \<Rightarrow> string \<Rightarrow> bool \<Rightarrow> SessionStats option" where
  "statsOfFile getTime lines sessionId projectPath includeFiles =
     (let st = foldl statsStep statsInit lines in
      if \<not> truthy (sst_startedAt st) then None
      else
        (let startedAt = orElse (sst_startedAt st) [];
             durationMs = (if truthy (sst_endedAt st)
                           then getTime (orElse (sst_endedAt st) []) - getTime startedAt else 0)
         in Some \<lparr>ss_sessionId = sessionId, ss_project = projectPath,
                  ss_summary = sst_summary st, ss_gitBranch = sst_gitBranch st,
                  ss_startedAt = startedAt,
                  ss_endedAt = orElse (sst_endedAt st) startedAt,
                  ss_durationMs = durationMs,
                  ss_durationFormatted = formatDuration durationMs,
                  ss_userMessages = sst_userMessages st,
                  ss_assistantMessages = sst_assistantMessages st,
                  ss_totalMessages = sst_userMessages st + sst_assistantMessages st,
                  ss_toolsUsed = sst_toolsUsed st,
                  ss_uniqueToolCount = length (sst_toolsUsed st),
                  ss_totalToolCalls = sum_list (map snd (sst_toolsUsed st)),
                  ss_agentSpawns = sst_agentSpawns st,
                  ss_filesAccessed =
                    (if includeFiles then Some (sst_filesAccessed st) else None)\<rparr>))"






record CompareArgs =
  ca_sessionId1 :: "string option"
  ca_sessionId2 :: "string option"
  ca_includeFiles :: "bool option"


section \<open>Reference notions for the properties\<close>

text \<open>
  The definitions of this section are not taken from the source: they say, in the words
  of the specification, what the functions above are compared with.
\<close>

text \<open>
  The timestamp of the first record in file order that satisfies \<open>P\<close> and carries a
  timestamp.
\<close>

fun firstTimestamp :: "(SessionMessage \<Rightarrow> bool) \<Rightarrow> line list \<Rightarrow> string option" where
  "firstTimestamp P [] = None"
| "firstTimestamp P (Blank # ls) = firstTimestamp P ls"
| "firstTimestamp P (Malformed # ls) = firstTimestamp P ls"
| "firstTimestamp P (Decoded msg # ls) =
     (if P msg \<and> truthy (msg_timestamp msg) then msg_timestamp msg else firstTimestamp P ls)"

definition anyRecord :: "SessionMessage \<Rightarrow> bool" where
  "anyRecord msg = True"

definition notSummaryUpdate :: "SessionMessage \<Rightarrow> bool" where
  "notSummaryUpdate msg = (\<not> (msg_type msg = Summary \<and> truthy (msg_summary msg)))"

text \<open>The parsed user and assistant messages of a file, in file order.\<close>

fun rawMessages :: "line list \<Rightarrow> RawMessage list" where
  "rawMessages [] = []"
| "rawMessages (Blank # ls) = rawMessages ls"
| "rawMessages (Malformed # ls) = rawMessages ls"
| "rawMessages (Decoded msg # ls) =
     (case msg_message msg of
        None \<Rightarrow> rawMessages ls
      | Some c \<Rightarrow>
          if isMessage msg
          then \<lparr>rm_role = msg_type msg, rm_rawContent = c,
                rm_timestamp = orElse (msg_timestamp msg) []\<rparr> # rawMessages ls
          else rawMessages ls)"

text \<open>The number of entries of a returned page; the markdown transcript is one string.\<close>

fun pageLength :: "session_data \<Rightarrow> nat option" where
  "pageLength (LegacyData ms) = Some (length ms)"
| "pageLength (MarkdownData s) = None"
| "pageLength (FullData ms) = Some (length ms)"
| "pageLength (StandardData ms) = Some (length ms)"
| "pageLength (MinimalData ms) = Some (length ms)"
| "pageLength (RawData ms) = Some (length ms)"

fun isError :: "'a ToolResult \<Rightarrow> bool" where
  "isError (ErrorResponse m) = True"
| "isError (SuccessResponse r) = False"



text \<open>
  The matches present in the data: the row of every session file that the branch lookup
  would accept, with no cap on how many are collected.
\<close>

definition fileRows ::
  "bool \<Rightarrow> string \<Rightarrow> string \<Rightarrow> SessionFile list \<Rightarrow> BranchSessionResult list" where
  "fileRows exactMatch branchLower projectPath fs =
     List.map_filter (\<lambda>f. if sessionFileName (file_name f)
                              then branchRow exactMatch branchLower projectPath f else None) fs"

fun allBranchRows ::
  "bool \<Rightarrow> string \<Rightarrow> string option \<Rightarrow> ProjectDir list \<Rightarrow> BranchSessionResult list" where
  "allBranchRows exactMatch branchLower project [] = []"
| "allBranchRows exactMatch branchLower project (d # ds) =
     (if projectFiltered project (decodeProjectPath (dir_name d)) then []
      else case dir_files d of
             ReaddirError e \<Rightarrow> []
           | Entries fs \<Rightarrow> fileRows exactMatch branchLower (decodeProjectPath (dir_name d)) fs)
     @ allBranchRows exactMatch branchLower project ds"

text \<open>Every timestamp written in the store, and "none of them is later than \<open>now\<close>".\<close>

fun lineTimestamps :: "line list \<Rightarrow> string list" where
  "lineTimestamps [] = []"
| "lineTimestamps (Decoded msg # ls) =
     (case msg_timestamp msg of None \<Rightarrow> lineTimestamps ls | Some t \<Rightarrow> t # lineTimestamps ls)"
| "lineTimestamps (l # ls) = lineTimestamps ls"

definition fileTimestamps :: "SessionFile list \<Rightarrow> string list" where
  "fileTimestamps fs = concat (map (\<lambda>f. lineTimestamps (file_lines f)) fs)"

definition storeTimestamps :: "ProjectDir list \<Rightarrow> string list" where
  "storeTimestamps ds =
     concat (map (\<lambda>d. case dir_files d of
                         ReaddirError e \<Rightarrow> []
                       | Entries fs \<Rightarrow> fileTimestamps fs) ds)"

definition noneAfter :: "clock \<Rightarrow> int \<Rightarrow> string list \<Rightarrow> bool" where
  "noneAfter getTime now tss = list_all (\<lambda>ts. getTime ts \<le> now) tss"

text \<open>The limits the two handlers use, and the branch matches present in the data.\<close>

definition searchLimit :: "SearchArgs \<Rightarrow> int" where
  "searchLimit args = (case sa_limit args of None \<Rightarrow> 20 | Some l \<Rightarrow> l)"

definition branchLimit :: "BranchArgs \<Rightarrow> int" where
  "branchLimit args = (case ba_limit args of None \<Rightarrow> 20 | Some l \<Rightarrow> l)"

definition branchMatchesInData :: "ProjectDir list \<Rightarrow> BranchArgs \<Rightarrow> BranchSessionResult list" where
  "branchMatchesInData ds args =
     allBranchRows (case ba_exactMatch args of None \<Rightarrow> False | Some b \<Rightarrow> b)
       (toLowerCase (orElse (ba_branch args) [])) (ba_project args) ds"

section \<open>Concrete stores\<close>

text \<open>Small session files and stores on which the theorems below are evaluated.\<close>

definition record_of ::
  "msg_type \<Rightarrow> content option \<Rightarrow> string option \<Rightarrow> SessionMessage" where
  "record_of t m ts = \<lparr>msg_type = t, msg_message = m, msg_timestamp = ts,
     msg_gitBranch = None, msg_summary = None\<rparr>"

definition one_file_store :: "string \<Rightarrow> line list \<Rightarrow> store" where
  "one_file_store name lines =
     Entries [\<lparr>dir_name = ''-repo'',
               dir_files = Entries [\<lparr>file_name = name, file_size = 100, file_lines = lines\<rparr>]\<rparr>]"

text \<open>A session file that holds one \<open>file-history-snapshot\<close> record and nothing else.\<close>

definition snapshot_only :: "line list" where
  "snapshot_only = [Decoded (record_of FileHistorySnapshot None None)]"

definition default_args :: "string \<Rightarrow> GetSessionArgs" where
  "default_args sid = \<lparr>gs_sessionId = Some sid, gs_format = None, gs_includeToolCalls = None,
     gs_limit = None, gs_offset = None\<rparr>"

text \<open>A session of one user prompt and one assistant turn that only calls a tool.\<close>

definition tool_session :: "line list" where
  "tool_session =
     [Decoded (record_of User (Some (CString ''hi'')) (Some ''2024-05-01T10:00:00.000Z'')),
      Decoded (record_of Assistant
        (Some (CArray [ItemObject (Some ''tool_use'') None (Some ''Read'')
                         (Some [(''file_path'', ''/a/b.txt'')])]))
        (Some ''2024-05-01T10:00:05.000Z''))]"

text \<open>A session whose first message is the assistant's, followed by a user prompt.\<close>

definition assistant_first :: "line list" where
  "assistant_first =
     [Decoded (record_of Assistant (Some (CString ''Welcome back.''))
        (Some ''2024-05-01T10:00:00.000Z'')),
      Decoded (record_of User (Some (CString ''fix the login bug''))
        (Some ''2024-05-01T10:00:05.000Z''))]"

text \<open>A snapshot record that carries a timestamp, followed by a user prompt.\<close>

definition snapshot_first :: "line list" where
  "snapshot_first =
     [Decoded (record_of FileHistorySnapshot None (Some ''2024-05-01T09:59:00.000Z'')),
      Decoded (record_of User (Some (CString ''hi'')) (Some ''2024-05-01T10:00:00.000Z''))]"

text \<open>The instants of the timestamps used below, in milliseconds since the epoch.\<close>

definition iso_clock :: clock where
  "iso_clock ts =
     (if ts = ''2024-05-01T09:59:00.000Z'' then 1714557540000
      else if ts = ''2024-05-01T10:00:00.000Z'' then 1714557600000
      else if ts = ''2024-05-01T10:00:05.000Z'' then 1714557605000
      else if ts = ''2030-01-01T00:00:00.000Z'' then 1893456000000
      else 0)"

text \<open>A store whose only session is stamped in 2030.\<close>

definition future_store :: store where
  "future_store =
     one_file_store ''s1.jsonl''
       [Decoded (record_of User (Some (CString ''hi'')) (Some ''2030-01-01T00:00:00.000Z''))]"

definition no_options :: ListOptions where
  "no_options = \<lparr>lo_project = None, lo_since = None, lo_until = None, lo_sortBy = None,
     lo_sortOrder = None, lo_limit = None\<rparr>"

definition search_args :: "string \<Rightarrow> int option \<Rightarrow> SearchArgs" where
  "search_args q limit = \<lparr>sa_query = Some q, sa_project = None, sa_role = None,
     sa_since = None, sa_until = None, sa_limit = limit\<rparr>"

definition branch_args :: "string \<Rightarrow> bool option \<Rightarrow> int option \<Rightarrow> BranchArgs" where
  "branch_args b exact limit = \<lparr>ba_branch = Some b, ba_project = None, ba_exactMatch = exact,
     ba_limit = limit\<rparr>"

text \<open>One user prompt on a given branch.\<close>

definition on_branch :: "string \<Rightarrow> line list" where
  "on_branch b =
     [Decoded \<lparr>msg_type = User, msg_message = Some (CString ''fix the login bug''),
               msg_timestamp = Some ''2024-05-01T10:00:00.000Z'',
               msg_gitBranch = Some b, msg_summary = None\<rparr>]"

definition session_file :: "string \<Rightarrow> line list \<Rightarrow> SessionFile" where
  "session_file name lines = \<lparr>file_name = name, file_size = 100, file_lines = lines\<rparr>"

text \<open>One project with three sessions, all on branch \<open>main\<close>.\<close>

definition three_on_main :: "ProjectDir list" where
  "three_on_main =
     [\<lparr>dir_name = ''-repo'',
       dir_files = Entries [session_file ''a.jsonl'' (on_branch ''main''),
                            session_file ''b.jsonl'' (on_branch ''main''),
                            session_file ''c.jsonl'' (on_branch ''main'')]\<rparr>]"



definition compare_args :: "string \<Rightarrow> string \<Rightarrow> CompareArgs" where
  "compare_args a b = \<lparr>ca_sessionId1 = Some a, ca_sessionId2 = Some b, ca_includeFiles = None\<rparr>"

text \<open>What \<^verbatim>\<open>parseSessionFile\<close> returns for \<open>tool_session\<close> in the \<open>json\<close> format.\<close>

definition tool_session_json :: SessionResult where
  "tool_session_json =
     \<lparr>sr_sessionId = ''s1'', sr_project = ''repo'', sr_summary = None, sr_gitBranch = None,
      sr_startedAt = ''2024-05-01T10:00:00.000Z'',
      sr_lastActivityAt = ''2024-05-01T10:00:05.000Z'',
      sr_data = LegacyData [\<lparr>lm_role = User, lm_content = ''hi'',
                              lm_timestamp = ''2024-05-01T10:00:00.000Z''\<rparr>],
      sr_total = 2, sr_hasMore = False\<rparr>"


section \<open>Content extractors: properties\<close>

text \<open>
  C7. On a bare string each text extractor (the session parser's, the content
  search's and the timeline's) returns the string unchanged, and on an empty block
  sequence each returns the empty string.
\<close>

theorem extractText_string_and_empty:
  "extractContentText (CString s) = s \<and> extractContentText (CArray []) = []
   \<and> extractContentTextSearch (CString s) = s \<and> extractContentTextSearch (CArray []) = []
   \<and> extractTextContent (CString s) = s \<and> extractTextContent (CArray []) = []"
  by simp

section \<open>get_session: errors\<close>

lemma getSessionLoop_error:
  "getSessionLoop ds sid fmt incl limit offset = Inl e \<Longrightarrow>
   e = Error (''Session '' @ sid @ '' not found'')"
  by (induction ds) (auto split: option.splits sum.splits)

lemma getSession_never_invalid:
  "getSessionHandler (Entries ds) args \<noteq> ErrorResponse ''Invalid session file: no timestamps found''"
proof (cases "truthy (gs_sessionId args)")
  case False
  then show ?thesis by (simp add: getSessionHandler_def)
next
  case True
  show ?thesis
  proof (cases "getSession (Entries ds) (orElse (gs_sessionId args) []) (gs_format args)
                  (gs_includeToolCalls args) (validatedLimit 50 (gs_limit args) 200)
                  (validatedOffset (gs_offset args))")
    case (Inr r)
    then show ?thesis using True by (simp add: getSessionHandler_def)
  next
    case (Inl e)
    then have "getSessionLoop ds (orElse (gs_sessionId args) [])
        (case gs_format args of None \<Rightarrow> Standard | Some f \<Rightarrow> f)
        (case gs_includeToolCalls args of None \<Rightarrow> False | Some b \<Rightarrow> b)
        (validatedLimit 50 (gs_limit args) 200) (validatedOffset (gs_offset args)) = Inl e"
      by (simp add: getSession_def)
    then have "e = Error (''Session '' @ orElse (gs_sessionId args) [] @ '' not found'')"
      by (rule getSessionLoop_error)
    then show ?thesis using True Inl by (simp add: getSessionHandler_def)
  qed
qed

text \<open>
  C1. A session file that holds only a \<open>file-history-snapshot\<close> record is rejected by
  \<^verbatim>\<open>parseSessionFile\<close> with the invalid-session error; but
  \<^verbatim>\<open>getSession\<close> catches that error with the \<^verbatim>\<open>stat\<close> failure and moves on, so
  the caller of get_session is told that the session was not found.
\<close>

theorem getSession_snapshot_only_reported_not_found:
  "parseSessionFile snapshot_only ''s1'' ''repo'' Standard False 50 0
     = Inl (Error ''Invalid session file: no timestamps found'')
   \<and> getSessionHandler (one_file_store ''s1.jsonl'' snapshot_only) (default_args ''s1'')
     = ErrorResponse ''Session s1 not found''"
  by code_simp

section \<open>get_session: pagination\<close>

lemma parse_allMessages:
  "ps_allMessages (foldl parseStep st ls) = ps_allMessages st @ rawMessages ls"
proof (induction ls arbitrary: st)
  case Nil
  then show ?case by simp
next
  case (Cons l ls)
  show ?case
  proof (cases l)
    case (Decoded msg)
    then show ?thesis using Cons.IH by (auto simp add: Let_def split: option.splits)
  qed (use Cons.IH in simp_all)
qed

lemma slice_nonneg:
  "0 \<le> off \<Longrightarrow> 0 \<le> lim \<Longrightarrow> slice xs off (off + lim) = take (nat lim) (drop (nat off) xs)"
  by (auto simp add: slice_def relIndex_def Let_def min_def nat_add_distrib)

lemma length_page:
  "0 \<le> off \<Longrightarrow> 0 \<le> lim \<Longrightarrow>
   int (length (take (nat lim) (drop (nat off) xs))) = min lim (max 0 (int (length xs) - off))"
  by auto

lemma parse_total:
  assumes "parseSessionFile lines sid p fmt incl limit offset = Inr r"
  shows "sr_total r = length (rawMessages lines)"
    and "sr_hasMore r = (offset + limit < int (sr_total r))"
  using assms
  by (auto simp add: parseSessionFile_def Let_def parse_allMessages parseInit_def
      split: if_splits)

lemma parse_data:
  assumes "parseSessionFile lines sid p fmt incl limit offset = Inr r"
  shows "sr_data r =
    (let page = slice (rawMessages lines) offset (offset + limit);
         st = foldl parseStep parseInit lines
     in case fmt of
          Markdown \<Rightarrow> MarkdownData (markdownText sid p (ps_summary st) (ps_gitBranch st)
            (sr_startedAt r) (ps_lastActivityAt st) (legacyMessages incl page))
        | Json \<Rightarrow> LegacyData (legacyMessages incl page)
        | Full \<Rightarrow> FullData (map (\<lambda>m. \<lparr>fm_role = rm_role m, fm_timestamp = rm_timestamp m,
                      fm_content = rm_rawContent m\<rparr>) page)
        | Standard \<Rightarrow> StandardData (map (\<lambda>m.
                      (let textContent = extractContentText (rm_rawContent m)
                       in \<lparr>sm_role = rm_role m, sm_timestamp = rm_timestamp m,
                            sm_text = (if textContent = [] then None else Some textContent),
                            sm_toolCalls = toolCallNames (rm_rawContent m)\<rparr>)) page)
        | Minimal \<Rightarrow> MinimalData (map (\<lambda>m.
                      \<lparr>mm_role = rm_role m, mm_timestamp = rm_timestamp m,
                       mm_contentLength = length (extractContentText (rm_rawContent m)),
                       mm_toolCalls = toolCallNames (rm_rawContent m)\<rparr>) page)
        | OtherFormat \<Rightarrow> RawData page)"
  using assms
  by (auto simp add: parseSessionFile_def Let_def parse_allMessages parseInit_def
      split: if_splits format.splits)

text \<open>
  C2 as stated fails: in the \<open>json\<close> format with \<open>includeToolCalls\<close>
  left at false, the assistant turn of \<open>tool_session\<close> flattens to \<open>[Tool: Read]\<close>
  and is dropped after pagination, so the page of a two-message session has one entry
  where \<open>min(limit, max(0, total - offset))\<close> is two.
\<close>

theorem json_page_shorter_than_claimed:
  "getSessionHandler (one_file_store ''s1.jsonl'' tool_session)
     ((default_args ''s1'')\<lparr>gs_format := Some Json\<rparr>) = SuccessResponse tool_session_json
   \<and> pageLength (sr_data tool_session_json) = Some 1
   \<and> nat (min 50 (max 0 (int (sr_total tool_session_json) - 0))) = 2"
  by code_simp

text \<open>
  C2, amended. For every file that \<^verbatim>\<open>parseSessionFile\<close> accepts and all
  \<open>offset, limit \<ge> 0\<close>: \<open>total\<close> is the number of parsed user and assistant messages
  and \<open>hasMore = (offset + limit < total)\<close> in every format; the page has
  \<open>min(limit, max(0, total - offset))\<close> entries in the formats \<open>full\<close>, \<open>standard\<close>
  and \<open>minimal\<close>, and in \<open>json\<close> when \<open>includeToolCalls\<close> is true; in \<open>json\<close> with
  \<open>includeToolCalls\<close> false the page is that slice without the messages whose
  flattened text contains \<open>[Tool\<close>, so it has at most that many entries; in \<open>markdown\<close>
  the data is one transcript string, rendered from the slice filtered in the same way.
\<close>

theorem parseSessionFile_page:
  assumes "parseSessionFile lines sid p fmt incl limit offset = Inr r"
    and "0 \<le> limit" and "0 \<le> offset"
  shows "sr_total r = length (rawMessages lines)
    \<and> sr_hasMore r = (offset + limit < int (sr_total r))
    \<and> ((fmt \<in> {Full, Standard, Minimal} \<or> (fmt = Json \<and> incl)) \<longrightarrow>
         pageLength (sr_data r) = Some (nat (min limit (max 0 (int (sr_total r) - offset)))))
    \<and> ((fmt = Json \<and> \<not> incl) \<longrightarrow>
         sr_data r = LegacyData (filter (\<lambda>m. \<not> includesStr (lm_content m) ''[Tool'')
           (map toLegacy (take (nat limit) (drop (nat offset) (rawMessages lines)))))
         \<and> (\<exists>n. pageLength (sr_data r) = Some n
               \<and> int n \<le> min limit (max 0 (int (sr_total r) - offset))))
    \<and> (fmt = Markdown \<longrightarrow>
         (\<exists>summary gitBranch lastActivityAt.
            sr_data r = MarkdownData (markdownText sid p summary gitBranch (sr_startedAt r)
              lastActivityAt
              (legacyMessages incl (take (nat limit) (drop (nat offset) (rawMessages lines)))))))"
proof -
  let ?page = "take (nat limit) (drop (nat offset) (rawMessages lines))"
  let ?kept = "filter (\<lambda>m. \<not> includesStr (lm_content m) ''[Tool'') (map toLegacy ?page)"
  have sl: "slice (rawMessages lines) offset (offset + limit) = ?page"
    using assms(3,2) by (rule slice_nonneg)
  have len: "int (length ?page) = min limit (max 0 (int (length (rawMessages lines)) - offset))"
    using assms(3,2) by (rule length_page)
  have tot: "sr_total r = length (rawMessages lines)"
    and more: "sr_hasMore r = (offset + limit < int (sr_total r))"
    using parse_total [OF assms(1)] by simp_all
  let ?st = "foldl parseStep parseInit lines"
  have data: "sr_data r = (case fmt of
          Markdown \<Rightarrow> MarkdownData (markdownText sid p (ps_summary ?st) (ps_gitBranch ?st)
            (sr_startedAt r) (ps_lastActivityAt ?st) (legacyMessages incl ?page))
        | Json \<Rightarrow> LegacyData (legacyMessages incl ?page)
        | Full \<Rightarrow> FullData (map (\<lambda>m. \<lparr>fm_role = rm_role m, fm_timestamp = rm_timestamp m,
                      fm_content = rm_rawContent m\<rparr>) ?page)
        | Standard \<Rightarrow> StandardData (map (\<lambda>m.
                      (let textContent = extractContentText (rm_rawContent m)
                       in \<lparr>sm_role = rm_role m, sm_timestamp = rm_timestamp m,
                            sm_text = (if textContent = [] then None else Some textContent),
                            sm_toolCalls = toolCallNames (rm_rawContent m)\<rparr>)) ?page)
        | Minimal \<Rightarrow> MinimalData (map (\<lambda>m.
                      \<lparr>mm_role = rm_role m, mm_timestamp = rm_timestamp m,
                       mm_contentLength = length (extractContentText (rm_rawContent m)),
                       mm_toolCalls = toolCallNames (rm_rawContent m)\<rparr>) ?page)
        | OtherFormat \<Rightarrow> RawData ?page)"
    using parse_data [OF assms(1)] sl by (simp add: Let_def)
  have n: "length ?page = nat (min limit (max 0 (int (sr_total r) - offset)))"
    using len tot by linarith
  have c1: "(fmt \<in> {Full, Standard, Minimal} \<or> (fmt = Json \<and> incl)) \<longrightarrow>
         pageLength (sr_data r) = Some (nat (min limit (max 0 (int (sr_total r) - offset))))"
    using data n by (auto simp add: legacyMessages_def simp del: length_take length_drop)
  have "length ?kept \<le> length ?page"
    using length_filter_le [of _ "map toLegacy ?page"] by (simp del: length_take length_drop)
  then have le: "int (length ?kept) \<le> min limit (max 0 (int (sr_total r) - offset))"
    using len tot by linarith
  have c2: "(fmt = Json \<and> \<not> incl) \<longrightarrow>
         sr_data r = LegacyData ?kept
         \<and> (\<exists>n. pageLength (sr_data r) = Some n
               \<and> int n \<le> min limit (max 0 (int (sr_total r) - offset)))"
    using data le by (auto simp add: legacyMessages_def simp del: length_take length_drop)
  have c3: "fmt = Markdown \<longrightarrow>
         (\<exists>summary gitBranch lastActivityAt.
            sr_data r = MarkdownData (markdownText sid p summary gitBranch (sr_startedAt r)
              lastActivityAt (legacyMessages incl ?page)))"
    using data by auto
  show ?thesis using tot more c1 c2 c3 by blast
qed

text \<open>The amended C2 at \<open>tool_session\<close>, format \<open>json\<close>, limit 50, offset 0.\<close>

theorem parseSessionFile_page_witness:
  "parseSessionFile tool_session ''s1'' ''repo'' Json False 50 0 = Inr tool_session_json
   \<and> sr_total tool_session_json = length (rawMessages tool_session)
   \<and> sr_hasMore tool_session_json = (0 + 50 < int (sr_total tool_session_json))
   \<and> sr_data tool_session_json = LegacyData (filter (\<lambda>m. \<not> includesStr (lm_content m) ''[Tool'')
           (map toLegacy (take (nat 50) (drop (nat 0) (rawMessages tool_session)))))
   \<and> (\<exists>n. pageLength (sr_data tool_session_json) = Some n
         \<and> int n \<le> min 50 (max 0 (int (sr_total tool_session_json) - 0)))"
proof -
  have h: "parseSessionFile tool_session ''s1'' ''repo'' Json False 50 0 = Inr tool_session_json"
    by code_simp
  have l: "(0::int) \<le> 50" and z: "(0::int) \<le> 0" by simp_all
  have j: "Json = Json \<and> \<not> False" by simp
  show ?thesis
    using parseSessionFile_page [OF h l z] h j by blast
qed

section \<open>startedAt\<close>

lemma firstTimestamp_truthy: "firstTimestamp P ls = Some t \<Longrightarrow> t \<noteq> []"
  by (induction P ls rule: firstTimestamp.induct) (auto simp: truthy_def split: if_splits)

lemma firstTimestamp_cases:
  "(case firstTimestamp P ls of None \<Rightarrow> None | Some t \<Rightarrow> if t = [] then None else Some (g t))
     = map_option g (firstTimestamp P ls)"
  using firstTimestamp_truthy [of P ls] by (cases "firstTimestamp P ls") auto

lemma truthy_firstTimestamp: "truthy (firstTimestamp P ls) = (firstTimestamp P ls \<noteq> None)"
  using firstTimestamp_truthy [of P ls] by (cases "firstTimestamp P ls") (auto simp: truthy_def)

lemma info_startedAt:
  "is_startedAt (foldl infoStep st ls) =
     (if truthy (is_startedAt st) then is_startedAt st
      else case firstTimestamp isMessage ls of None \<Rightarrow> is_startedAt st | Some t \<Rightarrow> Some t)"
proof (induction ls arbitrary: st)
  case Nil
  then show ?case by simp
next
  case (Cons l ls)
  show ?case
  proof (cases l)
    case (Decoded msg)
    then show ?thesis using Cons.IH by (auto simp add: Let_def truthy_def split: option.splits)
  qed (use Cons.IH in simp_all)
qed

lemma info_startedAt_init:
  "is_startedAt (foldl infoStep infoInit ls) = firstTimestamp isMessage ls"
  using info_startedAt [of infoInit ls]
  by (simp add: infoInit_def truthy_def split: option.splits)

lemma parse_startedAt:
  "ps_startedAt (foldl parseStep st ls) =
     (if truthy (ps_startedAt st) then ps_startedAt st
      else case firstTimestamp isMessage ls of None \<Rightarrow> ps_startedAt st | Some t \<Rightarrow> Some t)"
proof (induction ls arbitrary: st)
  case Nil
  then show ?case by simp
next
  case (Cons l ls)
  show ?case
  proof (cases l)
    case (Decoded msg)
    then show ?thesis using Cons.IH by (auto simp add: Let_def truthy_def split: option.splits)
  qed (use Cons.IH in simp_all)
qed

lemma parse_startedAt_init:
  "ps_startedAt (foldl parseStep parseInit ls) = firstTimestamp isMessage ls"
  using parse_startedAt [of parseInit ls]
  by (simp add: parseInit_def truthy_def split: option.splits)

lemma toolStep_startedAt: "tl_startedAt (foldl (toolStep ts) st tools) = tl_startedAt st"
  by (induction tools arbitrary: st) (simp_all add: toolStep_def)

lemma userEvent_startedAt: "tl_startedAt (userEvent ic ts c st) = tl_startedAt st"
  by (simp add: userEvent_def Let_def)

lemma assistantEvents_startedAt: "tl_startedAt (assistantEvents ic ts c st) = tl_startedAt st"
  by (simp add: assistantEvents_def Let_def toolStep_startedAt)

lemma timelineStep_startedAt:
  "tl_startedAt (timelineStep ic st (Decoded msg)) =
     (if notSummaryUpdate msg \<and> truthy (msg_timestamp msg) \<and> \<not> truthy (tl_startedAt st)
      then msg_timestamp msg else tl_startedAt st)"
  by (auto simp add: Let_def notSummaryUpdate_def userEvent_startedAt assistantEvents_startedAt
      split: option.splits)

lemma timeline_startedAt:
  "tl_startedAt (foldl (timelineStep ic) st ls) =
     (if truthy (tl_startedAt st) then tl_startedAt st
      else case firstTimestamp notSummaryUpdate ls of
             None \<Rightarrow> tl_startedAt st | Some t \<Rightarrow> Some t)"
proof (induction ls arbitrary: st)
  case Nil
  then show ?case by simp
next
  case (Cons l ls)
  show ?case
  proof (cases l)
    case (Decoded msg)
    have "foldl (timelineStep ic) st (l # ls) =
          foldl (timelineStep ic) (timelineStep ic st (Decoded msg)) ls"
      using Decoded by simp
    then show ?thesis
      using Cons.IH [of "timelineStep ic st (Decoded msg)"] Decoded
      by (auto simp add: timelineStep_startedAt truthy_def simp del: timelineStep.simps
          split: option.splits)
  qed (use Cons.IH in simp_all)
qed

lemma timeline_startedAt_init:
  "tl_startedAt (foldl (timelineStep ic) timelineInit ls) = firstTimestamp notSummaryUpdate ls"
  using timeline_startedAt [of ic timelineInit ls]
  by (simp add: timelineInit_def truthy_def split: option.splits)

lemma statsToolStep_startedAt: "sst_startedAt (foldl statsToolStep st tools) = sst_startedAt st"
  by (induction tools arbitrary: st) (simp_all add: statsToolStep_def Let_def)

lemma statsStep_startedAt:
  "sst_startedAt (statsStep st (Decoded msg)) =
     (if truthy (msg_timestamp msg) \<and> \<not> truthy (sst_startedAt st)
      then msg_timestamp msg else sst_startedAt st)"
  by (auto simp add: Let_def statsToolStep_startedAt split: option.splits)

lemma stats_startedAt:
  "sst_startedAt (foldl statsStep st ls) =
     (if truthy (sst_startedAt st) then sst_startedAt st
      else case firstTimestamp anyRecord ls of
             None \<Rightarrow> sst_startedAt st | Some t \<Rightarrow> Some t)"
proof (induction ls arbitrary: st)
  case Nil
  then show ?case by simp
next
  case (Cons l ls)
  show ?case
  proof (cases l)
    case (Decoded msg)
    have "foldl statsStep st (l # ls) = foldl statsStep (statsStep st (Decoded msg)) ls"
      using Decoded by simp
    then show ?thesis
      using Cons.IH [of "statsStep st (Decoded msg)"] Decoded
      by (auto simp add: statsStep_startedAt truthy_def anyRecord_def simp del: statsStep.simps
          split: option.splits)
  qed (use Cons.IH in simp_all)
qed

lemma stats_startedAt_init:
  "sst_startedAt (foldl statsStep statsInit ls) = firstTimestamp anyRecord ls"
  using stats_startedAt [of statsInit ls]
  by (simp add: statsInit_def truthy_def split: option.splits)

lemma orElse_Some: "t \<noteq> [] \<Longrightarrow> orElse (Some t) d = t"
  by (simp add: orElse_def)

text \<open>
  C3 as stated fails: where a \<open>file-history-snapshot\<close> record stamped
  09:59 precedes a user prompt stamped 10:00, the first timestamp in file order is 09:59,
  but \<^verbatim>\<open>getSessionInfo\<close> (list_sessions, get_session_summary) and
  \<^verbatim>\<open>parseSessionFile\<close> (get_session) report 10:00 as \<open>startedAt\<close>.
\<close>

theorem startedAt_skips_snapshot_record:
  "firstTimestamp anyRecord snapshot_first = Some ''2024-05-01T09:59:00.000Z''
   \<and> map_option si_startedAt (getSessionInfo snapshot_first ''s1'' ''repo'')
       = Some ''2024-05-01T10:00:00.000Z''
   \<and> (case parseSessionFile snapshot_first ''s1'' ''repo'' Standard False 50 0 of
         Inl e \<Rightarrow> None | Inr r \<Rightarrow> Some (sr_startedAt r))
       = Some ''2024-05-01T10:00:00.000Z''"
  by code_simp

text \<open>
  C3, amended. \<open>startedAt\<close> is the timestamp of the first record in file order that
  carries one, among the user and assistant records for list_sessions,
  get_session_summary (\<^verbatim>\<open>getSessionInfo\<close>), get_session (\<^verbatim>\<open>parseSessionFile\<close>)
  and find_sessions_by_branch; among all records but the summary records with a summary
  text for get_session_timeline; among all records for compare_sessions. A file with no
  such record is rejected by the view.
\<close>

theorem startedAt_by_view:
  "map_option si_startedAt (getSessionInfo lines sid p) = firstTimestamp isMessage lines
   \<and> (case parseSessionFile lines sid p fmt incl limit offset of
         Inl e \<Rightarrow> None | Inr r \<Rightarrow> Some (sr_startedAt r)) = firstTimestamp isMessage lines
   \<and> (case branchRow ex bl p f of
         None \<Rightarrow> True
       | Some row \<Rightarrow> Some (br_startedAt row) = firstTimestamp isMessage (file_lines f))
   \<and> (case timelineOfFile gt lines sid p ic tfmt limit offset of
         ErrorResponse e \<Rightarrow> None | SuccessResponse t \<Rightarrow> Some (st_startedAt t))
       = firstTimestamp notSummaryUpdate lines
   \<and> map_option ss_startedAt (statsOfFile gt lines sid p incf) = firstTimestamp anyRecord lines"
proof -
  have a: "map_option si_startedAt (getSessionInfo lines sid p) = firstTimestamp isMessage lines"
    using firstTimestamp_truthy [of isMessage lines]
    by (cases "firstTimestamp isMessage lines")
       (simp_all add: getSessionInfo_def Let_def info_startedAt_init)
  have b: "(case parseSessionFile lines sid p fmt incl limit offset of
         Inl e \<Rightarrow> None | Inr r \<Rightarrow> Some (sr_startedAt r)) = firstTimestamp isMessage lines"
    using firstTimestamp_truthy [of isMessage lines]
    by (cases "firstTimestamp isMessage lines")
       (simp_all add: parseSessionFile_def Let_def parse_startedAt_init truthy_def orElse_def)
  have c: "(case branchRow ex bl p f of
         None \<Rightarrow> True
       | Some row \<Rightarrow> Some (br_startedAt row) = firstTimestamp isMessage (file_lines f))"
    using firstTimestamp_truthy [of isMessage "file_lines f"]
    by (cases "firstTimestamp isMessage (file_lines f)")
       (auto simp add: branchRow_def Let_def info_startedAt_init truthy_def orElse_def
          split: option.splits)
  have d: "(case timelineOfFile gt lines sid p ic tfmt limit offset of
         ErrorResponse e \<Rightarrow> None | SuccessResponse t \<Rightarrow> Some (st_startedAt t))
       = firstTimestamp notSummaryUpdate lines"
    using firstTimestamp_truthy [of notSummaryUpdate lines]
    by (cases "firstTimestamp notSummaryUpdate lines")
       (simp_all add: timelineOfFile_def Let_def timeline_startedAt_init truthy_def orElse_def)
  have e: "map_option ss_startedAt (statsOfFile gt lines sid p incf) = firstTimestamp anyRecord lines"
    using firstTimestamp_truthy [of anyRecord lines]
    by (cases "firstTimestamp anyRecord lines")
       (simp_all add: statsOfFile_def Let_def stats_startedAt_init truthy_def orElse_def)
  show ?thesis using a b c d e by blast
qed

section \<open>get_session_summary\<close>

text \<open>
  C4. The fallback reads one message (\<open>limit = 1\<close>, \<open>offset = 0\<close>) and then looks
  for a user message in that page. In a session without a summary record whose first
  message is the assistant's, the user prompt that follows is never seen and the answer
  is \<open>No summary available\<close>, where the specification promises the first 200 characters of
  \<open>fix the login bug\<close>.
\<close>

theorem getSessionSummary_assistant_first:
  "getSessionSummaryHandler (one_file_store ''s1.jsonl'' assistant_first) (Some ''s1'')
     = SuccessResponse
         \<lparr>sum_sessionId = ''s1'', sum_summary = ''No summary available'',
          sum_project = ''repo'', sum_messageCount = 2,
          sum_startedAt = ''2024-05-01T10:00:00.000Z'',
          sum_lastActivityAt = ''2024-05-01T10:00:05.000Z''\<rparr>
   \<and> map rm_rawContent (rawMessages assistant_first)
       = [CString ''Welcome back.'', CString ''fix the login bug'']"
  by code_simp

section \<open>Determinism and the clock\<close>

lemma firstTimestamp_mem: "firstTimestamp P ls = Some t \<Longrightarrow> t \<in> set (lineTimestamps ls)"
  by (induction P ls rule: firstTimestamp.induct) (auto split: if_splits option.splits)

lemma getSessionInfo_startedAt_mem:
  assumes "getSessionInfo lines sid p = Some info"
  shows "si_startedAt info \<in> set (lineTimestamps lines)"
proof -
  have "is_startedAt (foldl infoStep infoInit lines) = Some (si_startedAt info)"
    using assms by (auto simp add: getSessionInfo_def Let_def split: option.splits if_splits)
  then have "firstTimestamp isMessage lines = Some (si_startedAt info)"
    by (simp add: info_startedAt_init)
  then show ?thesis by (rule firstTimestamp_mem)
qed

lemma noneAfter_append:
  "noneAfter gt now (xs @ ys) = (noneAfter gt now xs \<and> noneAfter gt now ys)"
  by (simp add: noneAfter_def)

lemma noneAfter_mem: "noneAfter gt now tss \<Longrightarrow> t \<in> set tss \<Longrightarrow> gt t \<le> now"
  by (simp add: noneAfter_def list_all_iff)

lemma listFiles_clock:
  assumes "noneAfter gt u1 (fileTimestamps fs)" and "noneAfter gt u2 (fileTimestamps fs)"
  shows "listFiles gt s u1 limit p fs acc = listFiles gt s u2 limit p fs acc"
  using assms
proof (induction fs arbitrary: acc)
  case Nil
  then show ?case by simp
next
  case (Cons f fs)
  have r1: "noneAfter gt u1 (fileTimestamps fs)" and r2: "noneAfter gt u2 (fileTimestamps fs)"
    and f1: "noneAfter gt u1 (lineTimestamps (file_lines f))"
    and f2: "noneAfter gt u2 (lineTimestamps (file_lines f))"
    using Cons.prems by (simp_all add: fileTimestamps_def noneAfter_append)
  note IH = Cons.IH [OF r1 r2]
  show ?case
  proof (cases "getSessionInfo (file_lines f) (removeFirst (file_name f) ''.jsonl'') p")
    case None
    then show ?thesis using IH by simp
  next
    case (Some info)
    have "gt (si_startedAt info) \<le> u1" and "gt (si_startedAt info) \<le> u2"
      using getSessionInfo_startedAt_mem [OF Some] f1 f2 noneAfter_mem by blast+
    then show ?thesis using Some IH by (simp add: Let_def)
  qed
qed

lemma listProjects_clock:
  assumes "noneAfter gt u1 (storeTimestamps ds)" and "noneAfter gt u2 (storeTimestamps ds)"
  shows "listProjects gt project s u1 limit ds acc = listProjects gt project s u2 limit ds acc"
  using assms
proof (induction ds arbitrary: acc)
  case Nil
  then show ?case by simp
next
  case (Cons d ds)
  have r1: "noneAfter gt u1 (storeTimestamps ds)" and r2: "noneAfter gt u2 (storeTimestamps ds)"
    using Cons.prems by (simp_all add: storeTimestamps_def noneAfter_append)
  note IH = Cons.IH [OF r1 r2]
  show ?case
  proof (cases "dir_files d")
    case (ReaddirError e)
    then show ?thesis using IH by (simp add: Let_def)
  next
    case (Entries files)
    have "noneAfter gt u1 (fileTimestamps files)" and "noneAfter gt u2 (fileTimestamps files)"
      using Cons.prems Entries by (simp_all add: storeTimestamps_def noneAfter_append)
    then have "listFiles gt s u1 limit (decodeProjectPath (dir_name d)) files acc
        = listFiles gt s u2 limit (decodeProjectPath (dir_name d)) files acc"
      by (rule listFiles_clock)
    then show ?thesis using Entries IH by (simp add: Let_def)
  qed
qed

lemma searchRecord_clock:
  assumes "noneAfter gt u1 (lineTimestamps [Decoded msg])"
    and "noneAfter gt u2 (lineTimestamps [Decoded msg])"
  shows "searchRecord gt q role s u1 sid p msg acc = searchRecord gt q role s u2 sid p msg acc"
  using assms
  by (cases "msg_timestamp msg")
     (auto simp add: searchRecord_def noneAfter_def truthy_def orElse_def)

lemma searchLines_clock:
  assumes "noneAfter gt u1 (lineTimestamps ls)" and "noneAfter gt u2 (lineTimestamps ls)"
  shows "searchLines gt q role s u1 limit sid p ls acc = searchLines gt q role s u2 limit sid p ls acc"
  using assms
proof (induction ls arbitrary: acc)
  case Nil
  then show ?case by simp
next
  case (Cons l ls)
  show ?case
  proof (cases l)
    case Blank
    then show ?thesis using Cons by simp
  next
    case Malformed
    then show ?thesis using Cons by simp
  next
    case (Decoded msg)
    have r1: "noneAfter gt u1 (lineTimestamps ls)" and r2: "noneAfter gt u2 (lineTimestamps ls)"
      and m1: "noneAfter gt u1 (lineTimestamps [Decoded msg])"
      and m2: "noneAfter gt u2 (lineTimestamps [Decoded msg])"
      using Cons.prems Decoded by (auto simp add: noneAfter_def split: option.splits)
    have "searchRecord gt q role s u1 sid p msg acc = searchRecord gt q role s u2 sid p msg acc"
      using m1 m2 by (rule searchRecord_clock)
    then show ?thesis using Decoded Cons.IH [OF r1 r2] by simp
  qed
qed

lemma searchFiles_clock:
  assumes "noneAfter gt u1 (fileTimestamps fs)" and "noneAfter gt u2 (fileTimestamps fs)"
  shows "searchFiles gt q role s u1 limit p fs acc = searchFiles gt q role s u2 limit p fs acc"
  using assms
proof (induction fs arbitrary: acc)
  case Nil
  then show ?case by simp
next
  case (Cons f fs)
  have r1: "noneAfter gt u1 (fileTimestamps fs)" and r2: "noneAfter gt u2 (fileTimestamps fs)"
    and f1: "noneAfter gt u1 (lineTimestamps (file_lines f))"
    and f2: "noneAfter gt u2 (lineTimestamps (file_lines f))"
    using Cons.prems by (simp_all add: fileTimestamps_def noneAfter_append)
  have "searchLines gt q role s u1 limit (removeFirst (file_name f) ''.jsonl'') p (file_lines f) acc
      = searchLines gt q role s u2 limit (removeFirst (file_name f) ''.jsonl'') p (file_lines f) acc"
    using f1 f2 by (rule searchLines_clock)
  then show ?case using Cons.IH [OF r1 r2] by (simp add: Let_def)
qed

lemma searchProjects_clock:
  assumes "noneAfter gt u1 (storeTimestamps ds)" and "noneAfter gt u2 (storeTimestamps ds)"
  shows "searchProjects gt q project role s u1 limit ds acc
       = searchProjects gt q project role s u2 limit ds acc"
  using assms
proof (induction ds arbitrary: acc)
  case Nil
  then show ?case by simp
next
  case (Cons d ds)
  have r1: "noneAfter gt u1 (storeTimestamps ds)" and r2: "noneAfter gt u2 (storeTimestamps ds)"
    using Cons.prems by (simp_all add: storeTimestamps_def noneAfter_append)
  note IH = Cons.IH [OF r1 r2]
  show ?case
  proof (cases "dir_files d")
    case (ReaddirError e)
    then show ?thesis using IH by (simp add: Let_def)
  next
    case (Entries files)
    have "noneAfter gt u1 (fileTimestamps files)" and "noneAfter gt u2 (fileTimestamps files)"
      using Cons.prems Entries by (simp_all add: storeTimestamps_def noneAfter_append)
    then have "searchFiles gt q role s u1 limit (decodeProjectPath (dir_name d)) files acc
        = searchFiles gt q role s u2 limit (decodeProjectPath (dir_name d)) files acc"
      by (rule searchFiles_clock)
    then show ?thesis using Entries IH by (simp add: Let_def)
  qed
qed

text \<open>
  C5 as stated fails: with \<open>until\<close> absent the upper date bound is the
  clock reading of the call. A session stamped 2030-01-01 is left out by a call made in
  November 2023 and listed by a call made in March 2030, the files and the arguments
  being the same.
\<close>

theorem list_sessions_depends_on_clock:
  "listSessionsHandler iso_clock 1700000000000 future_store no_options
     \<noteq> listSessionsHandler iso_clock 1900000000000 future_store no_options"
  by code_simp

text \<open>
  C5, amended. For list_sessions and search_session_content on fixed files and
  arguments, two runs give the same output when \<open>until\<close> is supplied, and also when it
  is absent and no timestamp in the store is later than either call's clock reading.
\<close>

theorem rerun_identical_when_clock_irrelevant:
  assumes "truthy until \<or> (noneAfter gt now1 (storeTimestamps ds) \<and> noneAfter gt now2 (storeTimestamps ds))"
  shows "listSessionsHandler gt now1 (Entries ds) (lopts\<lparr>lo_until := until\<rparr>)
           = listSessionsHandler gt now2 (Entries ds) (lopts\<lparr>lo_until := until\<rparr>)
       \<and> searchSessionContentHandler gt now1 (Entries ds) (sargs\<lparr>sa_until := until\<rparr>)
           = searchSessionContentHandler gt now2 (Entries ds) (sargs\<lparr>sa_until := until\<rparr>)"
proof (cases "truthy until")
  case True
  then show ?thesis
    by (simp add: listSessionsHandler_def listSessions_def searchSessionContentHandler_def
        searchAccumulated_def Let_def)
next
  case False
  then have n1: "noneAfter gt now1 (storeTimestamps ds)" and n2: "noneAfter gt now2 (storeTimestamps ds)"
    using assms by simp_all
  have l: "listProjects gt project s now1 limit ds [] = listProjects gt project s now2 limit ds []"
    for project s limit
    using n1 n2 by (rule listProjects_clock)
  have s: "searchProjects gt q project role s now1 limit ds []
         = searchProjects gt q project role s now2 limit ds []" for q project role s limit
    using n1 n2 by (rule searchProjects_clock)
  show ?thesis
    using False
    by (simp add: listSessionsHandler_def listSessions_def searchSessionContentHandler_def
        searchAccumulated_def Let_def l s)
qed

text \<open>The amended C5 at a store stamped in May 2024, read in 2027 and in 2030.\<close>

theorem rerun_identical_witness:
  "noneAfter iso_clock 1800000000000 (storeTimestamps three_on_main)
   \<and> noneAfter iso_clock 1900000000000 (storeTimestamps three_on_main)
   \<and> listSessionsHandler iso_clock 1800000000000 (Entries three_on_main)
         (no_options\<lparr>lo_until := None\<rparr>)
       = listSessionsHandler iso_clock 1900000000000 (Entries three_on_main)
         (no_options\<lparr>lo_until := None\<rparr>)
   \<and> searchSessionContentHandler iso_clock 1800000000000 (Entries three_on_main)
         ((search_args ''bug'' None)\<lparr>sa_until := None\<rparr>)
       = searchSessionContentHandler iso_clock 1900000000000 (Entries three_on_main)
         ((search_args ''bug'' None)\<lparr>sa_until := None\<rparr>)"
proof -
  have a: "noneAfter iso_clock 1800000000000 (storeTimestamps three_on_main)"
    and b: "noneAfter iso_clock 1900000000000 (storeTimestamps three_on_main)"
    by code_simp+
  then have "truthy None \<or> (noneAfter iso_clock 1800000000000 (storeTimestamps three_on_main)
      \<and> noneAfter iso_clock 1900000000000 (storeTimestamps three_on_main))"
    by simp
  from rerun_identical_when_clock_irrelevant [OF this, of no_options "search_args ''bug'' None"]
  show ?thesis using a b by blast
qed

section \<open>find_sessions_by_branch: the match\<close>













section \<open>Clamped pagination arguments\<close>













section \<open>The total field of the search and find views\<close>

lemma length_insertBy: "length (insertBy cmp x ys) = Suc (length ys)"
  by (induction ys) simp_all

lemma length_sortBy: "length (sortBy cmp xs) = length xs"
  by (induction xs) (simp_all add: sortBy_def length_insertBy)

lemma slice_from_zero: "0 \<le> limit \<Longrightarrow> slice xs 0 limit = take (nat limit) xs"
  by (auto simp add: slice_def relIndex_def Let_def min_def)

lemma length_searchRecord:
  "length (searchRecord gt q role s u sid p msg acc) \<le> Suc (length acc)"
  by (simp add: searchRecord_def Let_def split: option.splits)

lemma searchLines_bound:
  "int (length acc) \<le> m \<Longrightarrow> limit \<le> m \<Longrightarrow>
   int (length (searchLines gt q role s u limit sid p ls acc)) \<le> m"
proof (induction ls arbitrary: acc)
  case Nil
  then show ?case by simp
next
  case (Cons l ls)
  show ?case
  proof (cases l)
    case Blank
    then show ?thesis using Cons by simp
  next
    case Malformed
    then show ?thesis using Cons by simp
  next
    case (Decoded msg)
    show ?thesis
    proof (cases "int (length acc) \<ge> limit")
      case True
      then show ?thesis using Decoded Cons.prems by simp
    next
      case False
      have "int (length (searchRecord gt q role s u sid p msg acc)) \<le> m"
        using length_searchRecord [of gt q role s u sid p msg acc] False Cons.prems(2)
        by linarith
      then show ?thesis using Decoded False Cons.IH Cons.prems(2) by simp
    qed
  qed
qed

lemma searchFiles_bound:
  "int (length acc) \<le> m \<Longrightarrow> limit \<le> m \<Longrightarrow>
   int (length (searchFiles gt q role s u limit p fs acc)) \<le> m"
proof (induction fs arbitrary: acc)
  case Nil
  then show ?case by simp
next
  case (Cons f fs)
  have "int (length (searchLines gt q role s u limit (removeFirst (file_name f) ''.jsonl'') p
          (file_lines f) acc)) \<le> m"
    using Cons.prems by (rule searchLines_bound)
  then show ?case using Cons by (simp add: Let_def)
qed

lemma searchProjects_bound:
  "int (length acc) \<le> m \<Longrightarrow> limit \<le> m \<Longrightarrow>
   int (length (searchProjects gt q project role s u limit ds acc)) \<le> m"
proof (induction ds arbitrary: acc)
  case Nil
  then show ?case by simp
next
  case (Cons d ds)
  show ?case
  proof (cases "dir_files d")
    case (ReaddirError e)
    then show ?thesis using Cons by (simp add: Let_def)
  next
    case (Entries files)
    have "int (length (searchFiles gt q role s u limit (decodeProjectPath (dir_name d)) files acc))
        \<le> m"
      using Cons.prems by (rule searchFiles_bound)
    then show ?thesis using Entries Cons by (simp add: Let_def)
  qed
qed

lemma searchAccumulated_bound:
  "int (length (searchAccumulated gt now ds args))
     \<le> max 0 (case sa_limit args of None \<Rightarrow> 20 | Some l \<Rightarrow> l)"
  unfolding searchAccumulated_def by (rule searchProjects_bound) simp_all

lemma branchFiles_bound:
  "int (length (branchFiles ex bl limit p fs acc)) \<le> max (int (length acc) + 1) (limit * 2)"
proof (induction fs arbitrary: acc)
  case Nil
  then show ?case by simp
next
  case (Cons f fs)
  show ?case
  proof (cases "sessionFileName (file_name f)")
    case False
    then show ?thesis using Cons.IH [of acc] by simp
  next
    case True
    let ?acc' = "case branchRow ex bl p f of None \<Rightarrow> acc | Some row \<Rightarrow> acc @ [row]"
    have l: "length ?acc' \<le> Suc (length acc)" by (simp split: option.splits)
    show ?thesis
    proof (cases "int (length ?acc') \<ge> limit * 2")
      case True
      then show ?thesis using \<open>sessionFileName (file_name f)\<close> l by (simp add: Let_def)
    next
      case False
      then show ?thesis using \<open>sessionFileName (file_name f)\<close> Cons.IH [of ?acc'] l
        by (simp add: Let_def)
    qed
  qed
qed

lemma branchFiles_le_rows:
  "length (branchFiles ex bl limit p fs acc) \<le> length acc + length (fileRows ex bl p fs)"
proof (induction fs arbitrary: acc)
  case Nil
  then show ?case by (simp add: fileRows_def)
next
  case (Cons f fs)
  show ?case
  proof (cases "sessionFileName (file_name f)")
    case False
    then show ?thesis using Cons.IH [of acc] by (simp add: fileRows_def List.map_filter_simps)
  next
    case True
    show ?thesis
    proof (cases "branchRow ex bl p f")
      case None
      then show ?thesis using True Cons.IH [of acc]
        by (simp add: fileRows_def List.map_filter_simps Let_def)
    next
      case (Some row)
      then show ?thesis using True Cons.IH [of "acc @ [row]"]
        by (simp add: fileRows_def List.map_filter_simps Let_def)
    qed
  qed
qed

lemma branchProjects_le_rows:
  "length (branchProjects ex bl project limit ds acc)
     \<le> length acc + length (allBranchRows ex bl project ds)"
proof (induction ds arbitrary: acc)
  case Nil
  then show ?case by simp
next
  case (Cons d ds)
  show ?case
  proof (cases "projectFiltered project (decodeProjectPath (dir_name d))")
    case True
    then show ?thesis using Cons.IH [of acc] by (simp add: Let_def)
  next
    case False
    show ?thesis
    proof (cases "dir_files d")
      case (ReaddirError e)
      then show ?thesis using False Cons.IH [of acc] by (simp add: Let_def)
    next
      case (Entries files)
      have "length (branchFiles ex bl limit (decodeProjectPath (dir_name d)) files acc)
          \<le> length acc + length (fileRows ex bl (decodeProjectPath (dir_name d)) files)"
        by (rule branchFiles_le_rows)
      then show ?thesis
        using False Entries
          Cons.IH [of "branchFiles ex bl limit (decodeProjectPath (dir_name d)) files acc"]
        by (simp add: Let_def)
    qed
  qed
qed

text \<open>
  C9. The \<open>total\<close> of search_session_content and of find_sessions_by_branch is the
  length of the accumulated result list. For a limit that is a count (\<open>limit \<ge> 0\<close>):
  the search total never exceeds the limit, and the branch lookup returns at most limit
  rows. The scan of one project's files leaves at most \<open>2 * limit\<close> accumulated rows
  (or one more than it started with, when it started at or above that). The branch total
  never exceeds the number of matches in the data, and there is a store where it exceeds
  the number of returned rows and is below the number of matches.
\<close>

theorem total_is_accumulated_count:
  "(searchSessionContentHandler gt now (Entries ds) sargs = SuccessResponse sr \<longrightarrow>
      srch_total sr = length (searchAccumulated gt now ds sargs)
      \<and> (0 \<le> searchLimit sargs \<longrightarrow> int (srch_total sr) \<le> searchLimit sargs))
   \<and> (findSessionsByBranchHandler gt (Entries ds) bargs = SuccessResponse br \<longrightarrow>
      bres_total br = length (branchAccumulated ds bargs)
      \<and> bres_total br \<le> length (branchMatchesInData ds bargs)
      \<and> (0 \<le> branchLimit bargs \<longrightarrow> int (length (bres_results br)) \<le> branchLimit bargs))
   \<and> int (length (branchFiles ex bl limit p fs acc)) \<le> max (int (length acc) + 1) (limit * 2)
   \<and> (\<exists>gt' ds' bargs' br'.
        findSessionsByBranchHandler gt' (Entries ds') bargs' = SuccessResponse br'
        \<and> length (bres_results br') < bres_total br'
        \<and> bres_total br' < length (branchMatchesInData ds' bargs'))"
proof -
  have s1: "srch_total sr = length (searchAccumulated gt now ds sargs)"
    if "searchSessionContentHandler gt now (Entries ds) sargs = SuccessResponse sr"
    using that
    by (auto simp add: searchSessionContentHandler_def Let_def length_sortBy split: if_splits)
  have s2: "int (srch_total sr) \<le> searchLimit sargs"
    if "searchSessionContentHandler gt now (Entries ds) sargs = SuccessResponse sr"
      "0 \<le> searchLimit sargs"
    using s1 [OF that(1)] searchAccumulated_bound [of gt now ds sargs] that(2)
    by (simp add: searchLimit_def)
  have b1: "bres_total br = length (branchAccumulated ds bargs)"
    if "findSessionsByBranchHandler gt (Entries ds) bargs = SuccessResponse br"
    using that
    by (auto simp add: findSessionsByBranchHandler_def Let_def length_sortBy split: if_splits)
  have b2: "bres_total br \<le> length (branchMatchesInData ds bargs)"
    if "findSessionsByBranchHandler gt (Entries ds) bargs = SuccessResponse br"
    using b1 [OF that]
      branchProjects_le_rows [of "case ba_exactMatch bargs of None \<Rightarrow> False | Some b \<Rightarrow> b"
        "toLowerCase (orElse (ba_branch bargs) [])" "ba_project bargs"
        "case ba_limit bargs of None \<Rightarrow> 20 | Some l \<Rightarrow> l" ds "[]"]
    by (simp add: branchAccumulated_def branchMatchesInData_def)
  have b3: "int (length (bres_results br)) \<le> branchLimit bargs"
    if "findSessionsByBranchHandler gt (Entries ds) bargs = SuccessResponse br"
      "0 \<le> branchLimit bargs"
    using that
    by (auto simp add: findSessionsByBranchHandler_def Let_def slice_from_zero branchLimit_def
        split: if_splits)
  have b4: "int (length (branchFiles ex bl limit p fs acc)) \<le> max (int (length acc) + 1) (limit * 2)"
    by (rule branchFiles_bound)
  have ev: "(case findSessionsByBranchHandler iso_clock (Entries three_on_main)
                 (branch_args ''main'' None (Some 1)) of
              ErrorResponse e \<Rightarrow> False
            | SuccessResponse r \<Rightarrow>
                length (bres_results r) < bres_total r
                \<and> bres_total r < length (branchMatchesInData three_on_main
                                          (branch_args ''main'' None (Some 1))))"
    by code_simp
  have b5: "\<exists>gt' ds' bargs' br'.
        findSessionsByBranchHandler gt' (Entries ds') bargs' = SuccessResponse br'
        \<and> length (bres_results br') < bres_total br'
        \<and> bres_total br' < length (branchMatchesInData ds' bargs')"
  proof (cases "findSessionsByBranchHandler iso_clock (Entries three_on_main)
                 (branch_args ''main'' None (Some 1))")
    case (ErrorResponse e)
    then show ?thesis using ev by simp
  next
    case (SuccessResponse r)
    then show ?thesis using ev by auto
  qed
  show ?thesis using s1 s2 b1 b2 b3 b4 b5 by blast
qed

text \<open>
  C9 at three sessions on \<open>main\<close> in one project and limit 1: the search total is 1,
  the branch total is 2 with one row returned, and the data holds three matches.
\<close>

theorem total_is_accumulated_count_witness:
  "\<exists>sr br.
     searchSessionContentHandler iso_clock 1900000000000 (Entries three_on_main)
       (search_args ''BUG'' (Some 1)) = SuccessResponse sr
     \<and> 0 \<le> searchLimit (search_args ''BUG'' (Some 1))
     \<and> srch_total sr = length (searchAccumulated iso_clock 1900000000000 three_on_main
                                 (search_args ''BUG'' (Some 1)))
     \<and> int (srch_total sr) \<le> searchLimit (search_args ''BUG'' (Some 1))
     \<and> findSessionsByBranchHandler iso_clock (Entries three_on_main)
         (branch_args ''main'' None (Some 1)) = SuccessResponse br
     \<and> 0 \<le> branchLimit (branch_args ''main'' None (Some 1))
     \<and> bres_total br = length (branchAccumulated three_on_main (branch_args ''main'' None (Some 1)))
     \<and> bres_total br = 2
     \<and> length (branchMatchesInData three_on_main (branch_args ''main'' None (Some 1))) = 3
     \<and> int (length (bres_results br)) \<le> branchLimit (branch_args ''main'' None (Some 1))"
proof -
  let ?S = "searchSessionContentHandler iso_clock 1900000000000 (Entries three_on_main)
       (search_args ''BUG'' (Some 1))"
  let ?B = "findSessionsByBranchHandler iso_clock (Entries three_on_main)
         (branch_args ''main'' None (Some 1))"
  have "\<not> isError ?S" by code_simp
  then obtain sr where sr: "?S = SuccessResponse sr" by (cases ?S) auto
  have "\<not> isError ?B" by code_simp
  then obtain br where br: "?B = SuccessResponse br" by (cases ?B) auto
  have l1: "0 \<le> searchLimit (search_args ''BUG'' (Some 1))"
    and l2: "0 \<le> branchLimit (branch_args ''main'' None (Some 1))"
    by code_simp+
  have n2: "length (branchAccumulated three_on_main (branch_args ''main'' None (Some 1))) = 2"
    and n3: "length (branchMatchesInData three_on_main (branch_args ''main'' None (Some 1))) = 3"
    by code_simp+
  note t = total_is_accumulated_count
    [where gt = iso_clock and now = 1900000000000 and ds = three_on_main
      and sargs = "search_args ''BUG'' (Some 1)" and sr = sr
      and bargs = "branch_args ''main'' None (Some 1)" and br = br]
  have "srch_total sr = length (searchAccumulated iso_clock 1900000000000 three_on_main
                                 (search_args ''BUG'' (Some 1)))"
    and "int (srch_total sr) \<le> searchLimit (search_args ''BUG'' (Some 1))"
    and "bres_total br = length (branchAccumulated three_on_main (branch_args ''main'' None (Some 1)))"
    and "int (length (bres_results br)) \<le> branchLimit (branch_args ''main'' None (Some 1))"
    using t sr br l1 l2 by blast+
  then show ?thesis using sr br l1 l2 n2 n3 by auto
qed

section \<open>compare_sessions: ties\<close>






end
